theory Spec2Isabelle
  imports Complex_Main "HOL-Library.Sublist" "HOL-Library.AList"
begin

section \<open>JavaScript values and errors\<close>

text \<open>
  The four tools are TypeScript functions over untyped JSON data: the arguments of a
  call are a \<^verbatim>\<open>Record<string, unknown>\<close>, and the bodies of the HTTP responses are
  parsed JSON. A value is \<^verbatim>\<open>undefined\<close> or a JSON value. Numbers are kept as exact
  rationals: the tools test them for zero and pass them on, and do no arithmetic.
  Strings are byte strings (UTF-8).
\<close>

datatype jsval =
    Undefined
  | JNull
  | JBool bool
  | JNum rat
  | JStr string
  | JArr "jsval list"
  | JObj "(string \<times> jsval) list"

text \<open>A thrown value. Every value the tools or the runtime throw is an \<^verbatim>\<open>Error\<close>
  object, so \<^verbatim>\<open>error instanceof Error ? error.message : String(error)\<close> is its message.\<close>

datatype js_error = Error string | TypeError string | SyntaxError string

fun message :: "js_error \<Rightarrow> string" where
  "message (Error m) = m"
| "message (TypeError m) = m"
| "message (SyntaxError m) = m"

text \<open>\<^verbatim>\<open>!v\<close> is \<open>\<not> truthy v\<close>.\<close>

fun truthy :: "jsval \<Rightarrow> bool" where
  "truthy Undefined = False"
| "truthy JNull = False"
| "truthy (JBool b) = b"
| "truthy (JNum n) = (n \<noteq> 0)"
| "truthy (JStr s) = (s \<noteq> [])"
| "truthy (JArr xs) = True"
| "truthy (JObj kvs) = True"

text \<open>\<^verbatim>\<open>v ?? d\<close>\<close>

definition nullish :: "jsval \<Rightarrow> jsval \<Rightarrow> jsval" where
  "nullish v d = (if v = Undefined \<or> v = JNull then d else v)"

text \<open>\<^verbatim>\<open>s.includes(t)\<close>\<close>

definition includes_str :: "string \<Rightarrow> string \<Rightarrow> bool" where
  "includes_str s t = sublist t s"

text \<open>The decimal digits of a natural number, as a template literal prints an HTTP status.\<close>

fun show_nat :: "nat \<Rightarrow> string" where
  "show_nat n =
     (if n < 10 then [''0123456789'' ! n]
      else show_nat (n div 10) @ [''0123456789'' ! (n mod 10)])"

section \<open>JSON.parse\<close>

text \<open>
  \<^verbatim>\<open>JSON.parse\<close> is a built-in of the JavaScript runtime. It is modelled after the JSON
  grammar (ECMA-404): a scanner that reads the text one character at a time and a
  parser that keeps the open arrays and objects on a stack. The texts of the messages
  are the engine's own and stand here for whatever it prints.
\<close>

datatype token =
    LBrace | RBrace | LBracket | RBracket | Colon | Comma
  | TString string | TNumber rat | TTrue | TFalse | TNull

datatype lex_state =
    Idle
  | InString string
  | InEscape string
  | InUnicode string string
  | InNumber string
  | InLiteral string token

definition is_ws :: "char \<Rightarrow> bool" where
  "is_ws c = (c = CHR '' '' \<or> c = CHR 0x09 \<or> c = CHR 0x0A \<or> c = CHR 0x0D)"

definition is_digit :: "char \<Rightarrow> bool" where
  "is_digit c = (c \<in> set ''0123456789'')"

definition is_number_char :: "char \<Rightarrow> bool" where
  "is_number_char c = (is_digit c \<or> c \<in> set ''+-.eE'')"

definition hex_digit :: "char \<Rightarrow> nat option" where
  "hex_digit c =
     map_of (zip ''0123456789abcdef'' [0 ..< 16] @ zip ''ABCDEF'' [10 ..< 16]) c"

definition digits_value :: "string \<Rightarrow> nat" where
  "digits_value ds = foldl (\<lambda>n c. 10 * n + (case hex_digit c of None \<Rightarrow> 0 | Some d \<Rightarrow> d)) 0 ds"

definition hex_value :: "string \<Rightarrow> nat" where
  "hex_value ds = foldl (\<lambda>n c. 16 * n + (case hex_digit c of None \<Rightarrow> 0 | Some d \<Rightarrow> d)) 0 ds"

text \<open>The UTF-8 bytes of a UTF-16 code unit, which is what a \<^verbatim>\<open>\uXXXX\<close> escape names.\<close>

definition utf8 :: "nat \<Rightarrow> string" where
  "utf8 u =
     (if u < 128 then [char_of u]
      else if u < 2048 then [char_of (192 + u div 64), char_of (128 + u mod 64)]
      else [char_of (224 + u div 4096), char_of (128 + (u div 64) mod 64),
            char_of (128 + u mod 64)])"

text \<open>
  The value of a number literal
  \<^verbatim>\<open>-? (0 | [1-9][0-9]*) (. [0-9]+)? ([eE] [+-]? [0-9]+)?\<close>, or \<open>None\<close> when the
  text is not one.
\<close>

definition number_value :: "string \<Rightarrow> rat option" where
  "number_value s =
     (let negative = (take 1 s = ''-'');
          s1 = (if negative then drop 1 s else s);
          ip = takeWhile is_digit s1;
          s2 = dropWhile is_digit s1;
          has_frac = (take 1 s2 = ''.'');
          fp = (if has_frac then takeWhile is_digit (drop 1 s2) else []);
          s3 = (if has_frac then dropWhile is_digit (drop 1 s2) else s2);
          has_exp = (take 1 s3 = ''e'' \<or> take 1 s3 = ''E'');
          s4 = (if has_exp then drop 1 s3 else s3);
          exp_negative = (has_exp \<and> take 1 s4 = ''-'');
          s5 = (if has_exp \<and> (take 1 s4 = ''-'' \<or> take 1 s4 = ''+'') then drop 1 s4 else s4);
          ep = (if has_exp then takeWhile is_digit s5 else []);
          s6 = (if has_exp then dropWhile is_digit s5 else s5);
          mantissa = of_nat (digits_value ip) + of_nat (digits_value fp) / 10 ^ length fp;
          scaled = (if exp_negative then mantissa / 10 ^ digits_value ep
                    else mantissa * 10 ^ digits_value ep)
      in if ip = [] \<or> (1 < length ip \<and> take 1 ip = ''0'') \<or> (has_frac \<and> fp = [])
            \<or> (has_exp \<and> ep = []) \<or> s6 \<noteq> []
         then None
         else Some (if negative then - scaled else scaled))"

definition unexpected :: js_error where
  "unexpected = SyntaxError ''Unexpected token in JSON''"

definition unexpected_end :: js_error where
  "unexpected_end = SyntaxError ''Unexpected end of JSON input''"

definition step_idle :: "char \<Rightarrow> js_error + lex_state \<times> token list" where
  "step_idle c =
     (if c = CHR ''{'' then Inr (Idle, [LBrace])
      else if c = CHR ''}'' then Inr (Idle, [RBrace])
      else if c = CHR ''['' then Inr (Idle, [LBracket])
      else if c = CHR '']'' then Inr (Idle, [RBracket])
      else if c = CHR '':'' then Inr (Idle, [Colon])
      else if c = CHR '','' then Inr (Idle, [Comma])
      else if c = CHR 0x22 then Inr (InString [], [])
      else if c = CHR ''t'' then Inr (InLiteral ''rue'' TTrue, [])
      else if c = CHR ''f'' then Inr (InLiteral ''alse'' TFalse, [])
      else if c = CHR ''n'' then Inr (InLiteral ''ull'' TNull, [])
      else if c = CHR ''-'' \<or> is_digit c then Inr (InNumber [c], [])
      else if is_ws c then Inr (Idle, [])
      else Inl unexpected)"

fun step :: "lex_state \<Rightarrow> char \<Rightarrow> js_error + lex_state \<times> token list" where
  "step Idle c = step_idle c"
| "step (InString acc) c =
     (if c = CHR 0x22 then Inr (Idle, [TString acc])
      else if c = CHR 0x5C then Inr (InEscape acc, [])
      else if (of_char c :: nat) < 32 then Inl unexpected
      else Inr (InString (acc @ [c]), []))"
| "step (InEscape acc) c =
     (if c = CHR 0x22 \<or> c = CHR 0x5C \<or> c = CHR ''/'' then Inr (InString (acc @ [c]), [])
      else if c = CHR ''b'' then Inr (InString (acc @ [CHR 0x08]), [])
      else if c = CHR ''f'' then Inr (InString (acc @ [CHR 0x0C]), [])
      else if c = CHR ''n'' then Inr (InString (acc @ [CHR 0x0A]), [])
      else if c = CHR ''r'' then Inr (InString (acc @ [CHR 0x0D]), [])
      else if c = CHR ''t'' then Inr (InString (acc @ [CHR 0x09]), [])
      else if c = CHR ''u'' then Inr (InUnicode acc [], [])
      else Inl unexpected)"
| "step (InUnicode acc hex) c =
     (if hex_digit c = None then Inl unexpected
      else if length hex = 3 then Inr (InString (acc @ utf8 (hex_value (hex @ [c]))), [])
      else Inr (InUnicode acc (hex @ [c]), []))"
| "step (InNumber acc) c =
     (if is_number_char c then Inr (InNumber (acc @ [c]), [])
      else (case number_value acc of
              None \<Rightarrow> Inl unexpected
            | Some n \<Rightarrow>
                (case step_idle c of
                   Inl e \<Rightarrow> Inl e
                 | Inr (st, toks) \<Rightarrow> Inr (st, TNumber n # toks))))"
| "step (InLiteral rest tok) c =
     (case rest of
        [] \<Rightarrow> Inl unexpected
      | r # rs \<Rightarrow>
          if c \<noteq> r then Inl unexpected
          else if rs = [] then Inr (Idle, [tok])
          else Inr (InLiteral rs tok, []))"

fun lex_end :: "lex_state \<Rightarrow> js_error + token list" where
  "lex_end Idle = Inr []"
| "lex_end (InNumber acc) =
     (case number_value acc of None \<Rightarrow> Inl unexpected_end | Some n \<Rightarrow> Inr [TNumber n])"
| "lex_end st = Inl unexpected_end"

fun lex :: "lex_state \<Rightarrow> string \<Rightarrow> js_error + token list" where
  "lex st [] = lex_end st"
| "lex st (c # cs) =
     (case step st c of
        Inl e \<Rightarrow> Inl e
      | Inr (st', toks) \<Rightarrow>
          (case lex st' cs of Inl e \<Rightarrow> Inl e | Inr rest \<Rightarrow> Inr (toks @ rest)))"

text \<open>
  The parser's stack: an array with its elements so far, or an object with its
  properties so far and the key that waits for its value. A repeated key keeps its
  first position and takes the last value, as a property assignment does.
\<close>

datatype frame =
    ArrayFrame "jsval list"
  | ObjectFrame "(string \<times> jsval) list" "string option"

datatype parse_mode =
    ExpectValue | ArrayStart | ArrayNext
  | ObjectStart | ObjectKey | ObjectColon | ObjectNext
  | Finished jsval

fun complete :: "jsval \<Rightarrow> frame list \<Rightarrow> js_error + parse_mode \<times> frame list" where
  "complete v [] = Inr (Finished v, [])"
| "complete v (ArrayFrame vs # st) = Inr (ArrayNext, ArrayFrame (vs @ [v]) # st)"
| "complete v (ObjectFrame kvs (Some k) # st) =
     Inr (ObjectNext, ObjectFrame (AList.update k v kvs) None # st)"
| "complete v (ObjectFrame kvs None # st) = Inl unexpected"

fun close_array :: "frame list \<Rightarrow> js_error + parse_mode \<times> frame list" where
  "close_array (ArrayFrame vs # st) = complete (JArr vs) st"
| "close_array st = Inl unexpected"

fun close_object :: "frame list \<Rightarrow> js_error + parse_mode \<times> frame list" where
  "close_object (ObjectFrame kvs None # st) = complete (JObj kvs) st"
| "close_object st = Inl unexpected"

fun open_key :: "string \<Rightarrow> frame list \<Rightarrow> js_error + parse_mode \<times> frame list" where
  "open_key k (ObjectFrame kvs None # st) = Inr (ObjectColon, ObjectFrame kvs (Some k) # st)"
| "open_key k st = Inl unexpected"

fun parse_value :: "token \<Rightarrow> frame list \<Rightarrow> js_error + parse_mode \<times> frame list" where
  "parse_value (TString s) st = complete (JStr s) st"
| "parse_value (TNumber n) st = complete (JNum n) st"
| "parse_value TTrue st = complete (JBool True) st"
| "parse_value TFalse st = complete (JBool False) st"
| "parse_value TNull st = complete JNull st"
| "parse_value LBracket st = Inr (ArrayStart, ArrayFrame [] # st)"
| "parse_value LBrace st = Inr (ObjectStart, ObjectFrame [] None # st)"
| "parse_value t st = Inl unexpected"

fun parse_step :: "parse_mode \<Rightarrow> frame list \<Rightarrow> token \<Rightarrow> js_error + parse_mode \<times> frame list" where
  "parse_step ExpectValue st t = parse_value t st"
| "parse_step ArrayStart st t = (if t = RBracket then close_array st else parse_value t st)"
| "parse_step ArrayNext st t =
     (if t = Comma then Inr (ExpectValue, st)
      else if t = RBracket then close_array st
      else Inl unexpected)"
| "parse_step ObjectStart st t =
     (case t of TString k \<Rightarrow> open_key k st | RBrace \<Rightarrow> close_object st | _ \<Rightarrow> Inl unexpected)"
| "parse_step ObjectKey st t =
     (case t of TString k \<Rightarrow> open_key k st | _ \<Rightarrow> Inl unexpected)"
| "parse_step ObjectColon st t = (if t = Colon then Inr (ExpectValue, st) else Inl unexpected)"
| "parse_step ObjectNext st t =
     (if t = Comma then Inr (ObjectKey, st)
      else if t = RBrace then close_object st
      else Inl unexpected)"
| "parse_step (Finished v) st t = Inl unexpected"

fun parse_tokens :: "parse_mode \<Rightarrow> frame list \<Rightarrow> token list \<Rightarrow> js_error + jsval" where
  "parse_tokens m st [] = (case m of Finished v \<Rightarrow> Inr v | _ \<Rightarrow> Inl unexpected_end)"
| "parse_tokens m st (t # ts) =
     (case parse_step m st t of
        Inl e \<Rightarrow> Inl e
      | Inr (m', st') \<Rightarrow> parse_tokens m' st' ts)"

definition JSON_parse :: "string \<Rightarrow> js_error + jsval" where
  "JSON_parse s =
     (case lex Idle s of
        Inl e \<Rightarrow> Inl e
      | Inr ts \<Rightarrow> parse_tokens ExpectValue [] ts)"

section \<open>The outside world\<close>

text \<open>
  An HTTP request as \<^verbatim>\<open>fetch\<close> receives it. A JSON body is kept as the value that
  \<^verbatim>\<open>JSON.stringify\<close> is applied to, and a multipart form as its list of parts.
\<close>

datatype form_value =
    FormText string
  | FormJson jsval
  | FormBlob string string

datatype payload = JsonBody jsval | FormData "(string \<times> form_value) list"

record request =
  req_method :: string
  req_url :: string
  req_headers :: "(string \<times> string) list"
  req_body :: "payload option"

text \<open>A response: its status, its \<^verbatim>\<open>content-type\<close> header, and its body, whose reading
  may fail.\<close>

record response =
  resp_status :: nat
  resp_content_type :: "string option"
  resp_body :: "js_error + string"

text \<open>
  What a call depends on and does not compute itself: the process environment, the
  network (a rejected \<^verbatim>\<open>fetch\<close> is \<open>Inl\<close>), and the built-ins of the runtime whose
  results the tools only pass on: \<^verbatim>\<open>String(v)\<close> and \<^verbatim>\<open>Number(v)\<close> of a value that is
  not a primitive of the obvious kind (\<open>None\<close> is \<^verbatim>\<open>NaN\<close>), \<^verbatim>\<open>encodeURIComponent\<close> and
  the base64 text of a byte string.
\<close>

record world =
  process_env :: "string \<rightharpoonup> string"
  fetch :: "request \<Rightarrow> js_error + response"
  string_of :: "jsval \<Rightarrow> js_error + string"
  number_of :: "jsval \<Rightarrow> js_error + rat option"
  encodeURIComponent :: "string \<Rightarrow> js_error + string"
  base64 :: "string \<Rightarrow> string"

text \<open>\<^verbatim>\<open>response.ok\<close>, \<^verbatim>\<open>response.text()\<close>, \<^verbatim>\<open>response.json()\<close>, \<^verbatim>\<open>response.blob()\<close>\<close>

definition ok :: "response \<Rightarrow> bool" where
  "ok r = (200 \<le> resp_status r \<and> resp_status r \<le> 299)"

definition resp_text :: "response \<Rightarrow> js_error + string" where
  "resp_text r = resp_body r"

definition resp_json :: "response \<Rightarrow> js_error + jsval" where
  "resp_json r = (case resp_body r of Inl e \<Rightarrow> Inl e | Inr s \<Rightarrow> JSON_parse s)"

definition resp_blob :: "response \<Rightarrow> js_error + string" where
  "resp_blob r = resp_body r"

text \<open>
  A computation of a tool: it throws or returns, and it has sent the listed requests,
  in order. \<open>and_then m f\<close> is \<^verbatim>\<open>const x = await m; f(x)\<close>: a throw in \<open>m\<close> skips \<open>f\<close>.
\<close>

type_synonym 'a io = "(js_error + 'a) \<times> request list"

definition ret :: "'a \<Rightarrow> 'a io" where
  "ret x = (Inr x, [])"

definition throw :: "js_error \<Rightarrow> 'a io" where
  "throw e = (Inl e, [])"

definition lift :: "js_error + 'a \<Rightarrow> 'a io" where
  "lift r = (r, [])"

definition and_then :: "'a io \<Rightarrow> ('a \<Rightarrow> 'b io) \<Rightarrow> 'b io" where
  "and_then m f =
     (case m of
        (Inl e, sent) \<Rightarrow> (Inl e, sent)
      | (Inr x, sent) \<Rightarrow> (case f x of (r, sent') \<Rightarrow> (r, sent @ sent')))"

definition js_fetch :: "world \<Rightarrow> request \<Rightarrow> response io" where
  "js_fetch w req = (fetch w req, [req])"

text \<open>\<^verbatim>\<open>fetch(url)\<close> with no options is a GET without headers.\<close>

definition get_request :: "string \<Rightarrow> request" where
  "get_request url = \<lparr>req_method = ''GET'', req_url = url, req_headers = [], req_body = None\<rparr>"

section \<open>Operations on values\<close>

text \<open>\<^verbatim>\<open>params.key\<close>\<close>

type_synonym params = "string \<rightharpoonup> jsval"

definition param :: "params \<Rightarrow> string \<Rightarrow> jsval" where
  "param ps k = (case ps k of None \<Rightarrow> Undefined | Some v \<Rightarrow> v)"

text \<open>
  \<^verbatim>\<open>v.key\<close>, for the property names the tools read (\<^verbatim>\<open>errors\<close>, \<^verbatim>\<open>data\<close>, \<^verbatim>\<open>message\<close>,
  \<^verbatim>\<open>audio\<close>, \<^verbatim>\<open>contentType\<close>): no prototype has them, so only an object that holds the
  key has a value there.
\<close>

fun member :: "jsval \<Rightarrow> string \<Rightarrow> js_error + jsval" where
  "member Undefined k =
     Inl (TypeError (''Cannot read properties of undefined (reading '' @ k @ '')''))"
| "member JNull k =
     Inl (TypeError (''Cannot read properties of null (reading '' @ k @ '')''))"
| "member (JObj kvs) k = Inr (case map_of kvs k of None \<Rightarrow> Undefined | Some v \<Rightarrow> v)"
| "member v k = Inr Undefined"

text \<open>\<^verbatim>\<open>`${v}`\<close>\<close>

fun to_string :: "world \<Rightarrow> jsval \<Rightarrow> js_error + string" where
  "to_string w Undefined = Inr ''undefined''"
| "to_string w JNull = Inr ''null''"
| "to_string w (JBool b) = Inr (if b then ''true'' else ''false'')"
| "to_string w (JStr s) = Inr s"
| "to_string w v = string_of w v"

text \<open>\<^verbatim>\<open>v > 0\<close>\<close>

fun greater_zero :: "world \<Rightarrow> jsval \<Rightarrow> js_error + bool" where
  "greater_zero w (JNum n) = Inr (0 < n)"
| "greater_zero w Undefined = Inr False"
| "greater_zero w JNull = Inr False"
| "greater_zero w (JBool b) = Inr b"
| "greater_zero w v =
     (case number_of w v of
        Inl e \<Rightarrow> Inl e
      | Inr None \<Rightarrow> Inr False
      | Inr (Some n) \<Rightarrow> Inr (0 < n))"

text \<open>\<^verbatim>\<open>v.length > 0\<close>\<close>

fun length_positive :: "world \<Rightarrow> jsval \<Rightarrow> js_error + bool" where
  "length_positive w (JArr xs) = Inr (xs \<noteq> [])"
| "length_positive w (JStr s) = Inr (s \<noteq> [])"
| "length_positive w (JObj kvs) =
     greater_zero w (case map_of kvs ''length'' of None \<Rightarrow> Undefined | Some v \<Rightarrow> v)"
| "length_positive w Undefined =
     Inl (TypeError ''Cannot read properties of undefined (reading length)'')"
| "length_positive w JNull =
     Inl (TypeError ''Cannot read properties of null (reading length)'')"
| "length_positive w v = Inr False"

text \<open>\<^verbatim>\<open>v[0]\<close>\<close>

fun first_element :: "jsval \<Rightarrow> js_error + jsval" where
  "first_element (JArr xs) = Inr (case xs of [] \<Rightarrow> Undefined | x # _ \<Rightarrow> x)"
| "first_element (JStr s) = Inr (if s = [] then Undefined else JStr (take 1 s))"
| "first_element (JObj kvs) = Inr (case map_of kvs ''0'' of None \<Rightarrow> Undefined | Some v \<Rightarrow> v)"
| "first_element Undefined =
     Inl (TypeError ''Cannot read properties of undefined (reading 0)'')"
| "first_element JNull =
     Inl (TypeError ''Cannot read properties of null (reading 0)'')"
| "first_element v = Inr Undefined"

text \<open>\<^verbatim>\<open>v.substring(0, 100)\<close>: only a string has the method.\<close>

fun substring_0_100 :: "jsval \<Rightarrow> js_error + string" where
  "substring_0_100 (JStr s) = Inr (take 100 s)"
| "substring_0_100 Undefined =
     Inl (TypeError ''Cannot read properties of undefined (reading substring)'')"
| "substring_0_100 JNull =
     Inl (TypeError ''Cannot read properties of null (reading substring)'')"
| "substring_0_100 v = Inl (TypeError ''audioResult.audio.substring is not a function'')"

text \<open>\<^verbatim>\<open>result && typeof result === "object" && "audio" in result\<close>\<close>

fun has_audio :: "jsval \<Rightarrow> bool" where
  "has_audio (JObj kvs) = (map_of kvs ''audio'' \<noteq> None)"
| "has_audio v = False"

text \<open>A string that may be \<^verbatim>\<open>undefined\<close>: its truth value, \<^verbatim>\<open>s || d\<close>, and it as a value.\<close>

fun given :: "string option \<Rightarrow> bool" where
  "given None = False"
| "given (Some s) = (s \<noteq> [])"

fun or_else :: "string option \<Rightarrow> string \<Rightarrow> string" where
  "or_else None d = d"
| "or_else (Some s) d = (if s = [] then d else s)"

fun js_of :: "string option \<Rightarrow> jsval" where
  "js_of None = Undefined"
| "js_of (Some s) = JStr s"

section \<open>Reading parameters\<close>

text \<open>
  Modelled from the spec: \<^verbatim>\<open>readStringParam\<close> is imported from \<^verbatim>\<open>./common.js\<close>, which is
  not among the sources. The spec says of parameter validation that an optional
  parameter that is left out falls back to its default, so the helper yields nothing
  for it, and that "a required string parameter missing or empty triggers an immediate
  failure", reported "with the offending parameter name embedded in the message". A
  value that is not a string is read as a missing one. The message is the parameter's
  name followed by \<^verbatim>\<open>required\<close>; the spec fixes only that the name is in it.
\<close>

definition readStringParam :: "params \<Rightarrow> string \<Rightarrow> string option" where
  "readStringParam ps key =
     (case ps key of
        Some (JStr s) \<Rightarrow> if s = [] then None else Some s
      | _ \<Rightarrow> None)"

definition readStringParam_required :: "params \<Rightarrow> string \<Rightarrow> js_error + string" where
  "readStringParam_required ps key =
     (case readStringParam ps key of
        None \<Rightarrow> Inl (Error (key @ '' required''))
      | Some s \<Rightarrow> Inr s)"

section \<open>The result envelope\<close>

text \<open>
  The text of a content block is a string, or \<^verbatim>\<open>JSON.stringify(result, null, 2)\<close> of a
  value, which is kept as that value.
\<close>

datatype text_value = Text string | PrettyJSON jsval

record content_block =
  block_type :: string
  block_text :: text_value

record envelope =
  content :: "content_block list"
  details :: "(string \<times> jsval) list"

definition text_block :: "string \<Rightarrow> content_block" where
  "text_block s = \<lparr>block_type = ''text'', block_text = Text s\<rparr>"

text \<open>The return after the \<^verbatim>\<open>switch\<close>, the \<^verbatim>\<open>default\<close> branch and the \<^verbatim>\<open>catch\<close> block, which
  are the same in the four tools but for the provider's name.\<close>

definition success :: "string \<Rightarrow> jsval \<Rightarrow> envelope io" where
  "success action result =
     ret \<lparr>content = [\<lparr>block_type = ''text'', block_text = PrettyJSON result\<rparr>],
          details = [(''action'', JStr action), (''success'', JBool True)]\<rparr>"

definition unknown_action :: "string \<Rightarrow> envelope io" where
  "unknown_action action =
     ret \<lparr>content = [text_block (''Unknown action: '' @ action)],
          details = [(''error'', JStr ''unknown_action'')]\<rparr>"

definition catch :: "string \<Rightarrow> string \<Rightarrow> envelope io \<Rightarrow> envelope io" where
  "catch provider action m =
     (case m of
        (Inl error, sent) \<Rightarrow>
          (Inr \<lparr>content = [text_block (provider @ '' error: '' @ message error)],
                details = [(''action'', JStr action), (''error'', JStr (message error))]\<rparr>,
           sent)
      | (Inr e, sent) \<Rightarrow> (Inr e, sent))"

text \<open>The start of every \<^verbatim>\<open>execute\<close>: the action is read before the \<^verbatim>\<open>try\<close> block, so a
  failure to read it leaves \<^verbatim>\<open>execute\<close> as a throw; then the credential is looked up, and
  \<^verbatim>\<open>!key\<close> holds of an unset and of an empty variable.\<close>

definition missing_credential :: "string \<Rightarrow> string \<Rightarrow> envelope io" where
  "missing_credential explanation code =
     ret \<lparr>content = [text_block explanation], details = [(''error'', JStr code)]\<rparr>"

definition credential :: "world \<Rightarrow> string \<Rightarrow> string option" where
  "credential w name =
     (case process_env w name of
        None \<Rightarrow> None
      | Some k \<Rightarrow> if k = [] then None else Some k)"

section \<open>The Linear tool\<close>

text \<open>
  \<^verbatim>\<open>linearGraphQL\<close>: one POST to the GraphQL endpoint. A response that is not ok is thrown
  with its status and text; a body whose \<^verbatim>\<open>errors\<close> is a non-empty array is thrown with
  the first error's message; otherwise the body's \<^verbatim>\<open>data\<close> is the result.
\<close>

definition linear_request :: "string \<Rightarrow> jsval \<Rightarrow> string \<Rightarrow> request" where
  "linear_request query variables apiKey =
     \<lparr>req_method = ''POST'',
      req_url = ''https://api.linear.app/graphql'',
      req_headers = [(''Authorization'', apiKey), (''Content-Type'', ''application/json'')],
      req_body = Some (JsonBody (JObj [(''query'', JStr query), (''variables'', variables)]))\<rparr>"

definition graphql_result :: "world \<Rightarrow> jsval \<Rightarrow> jsval io" where
  "graphql_result w result =
     and_then (lift (member result ''errors'')) (\<lambda>errors.
     and_then (if truthy errors then lift (length_positive w errors) else ret False) (\<lambda>failed.
       if failed then
         and_then (lift (first_element errors)) (\<lambda>first.
         and_then (lift (member first ''message'')) (\<lambda>m.
         and_then (lift (to_string w m)) (\<lambda>text.
           throw (Error (''Linear GraphQL error: '' @ text)))))
       else lift (member result ''data'')))"

definition linearGraphQL :: "world \<Rightarrow> string \<Rightarrow> jsval \<Rightarrow> string \<Rightarrow> jsval io" where
  "linearGraphQL w query variables apiKey =
     and_then (js_fetch w (linear_request query variables apiKey)) (\<lambda>response.
       if \<not> ok response then
         and_then (lift (resp_text response)) (\<lambda>error.
           throw (Error (''Linear API error ('' @ show_nat (resp_status response) @ ''): '' @ error)))
       else
         and_then (lift (resp_json response)) (\<lambda>result. graphql_result w result))"

text \<open>The GraphQL documents are the source's, with each run of white space written as
  one space.\<close>

definition listIssues_query :: string where
  "listIssues_query = ''query($filter: IssueFilter) { issues(filter: $filter, first: 50) { nodes { id title description state { name } priority assignee { name } createdAt updatedAt } } }''"

definition getIssue_query :: string where
  "getIssue_query = ''query($id: String!) { issue(id: $id) { id title description state { name } priority assignee { name } team { name } project { name } comments { nodes { body user { name } createdAt } } createdAt updatedAt } }''"

definition createIssue_query :: string where
  "createIssue_query = ''mutation($input: IssueCreateInput!) { issueCreate(input: $input) { success issue { id title identifier url } } }''"

definition updateIssue_query :: string where
  "updateIssue_query = ''mutation($id: String!, $input: IssueUpdateInput!) { issueUpdate(id: $id, input: $input) { success issue { id title state { name } } } }''"

definition listProjects_query :: string where
  "listProjects_query = ''query { projects(first: 50) { nodes { id name description state progress targetDate } } }''"

definition listTeams_query :: string where
  "listTeams_query = ''query { teams { nodes { id name key description } } }''"

definition searchIssues_query :: string where
  "searchIssues_query = ''query($query: String!) { searchIssues(query: $query, first: 30) { nodes { id title identifier state { name } team { name } } } }''"

text \<open>The filter fragment of \<^verbatim>\<open>listIssues\<close>: the second assignment replaces the first.\<close>

definition team_filter :: "string \<Rightarrow> string" where
  "team_filter teamId = ''team: { id: { eq: \"'' @ teamId @ ''\" } }''"

definition project_filter :: "string \<Rightarrow> string" where
  "project_filter projectId = ''project: { id: { eq: \"'' @ projectId @ ''\" } }''"

definition listIssues_filter :: "string option \<Rightarrow> string option \<Rightarrow> string" where
  "listIssues_filter teamId projectId =
     (let filter0 = [];
          filter1 = (case teamId of
                       Some t \<Rightarrow> if t \<noteq> [] then team_filter t else filter0
                     | None \<Rightarrow> filter0);
          filter2 = (case projectId of
                       Some p \<Rightarrow> if p \<noteq> [] then project_filter p else filter1
                     | None \<Rightarrow> filter1)
      in filter2)"

text \<open>
  \<^verbatim>\<open>{ filter: filter ? JSON.parse(`{${filter}}`) : undefined }\<close>. The Linear tool is the one
  that calls \<^verbatim>\<open>JSON.parse\<close> itself. Its \<^verbatim>\<open>try\<close> block and its \<^verbatim>\<open>execute\<close> are written
  with the parser as the argument \<open>parse\<close>, so that the text the parser is given can be
  told apart from what the parser makes of it; the tool is the instance at
  \<open>JSON_parse\<close>.
\<close>

definition listIssues_variables :: "(string \<Rightarrow> js_error + jsval) \<Rightarrow> string \<Rightarrow> jsval io" where
  "listIssues_variables parse fragment =
     and_then (if fragment \<noteq> [] then lift (parse (''{'' @ fragment @ ''}'')) else ret Undefined)
       (\<lambda>parsed. ret (JObj [(''filter'', parsed)]))"

text \<open>The \<^verbatim>\<open>input\<close> of \<^verbatim>\<open>updateIssue\<close>, filled one property at a time.\<close>

definition updateIssue_input :: "string option \<Rightarrow> string option \<Rightarrow> string option \<Rightarrow> jsval \<Rightarrow> jsval" where
  "updateIssue_input title description stateId priority =
     JObj ((if given title then [(''title'', js_of title)] else [])
         @ (if given description then [(''description'', js_of description)] else [])
         @ (if given stateId then [(''stateId'', js_of stateId)] else [])
         @ (if priority \<noteq> Undefined then [(''priority'', priority)] else []))"

text \<open>The \<^verbatim>\<open>try\<close> block.\<close>

definition linear_try_with ::
  "(string \<Rightarrow> js_error + jsval) \<Rightarrow> world \<Rightarrow> params \<Rightarrow> string \<Rightarrow> string \<Rightarrow> envelope io" where
  "linear_try_with parse w ps action apiKey =
     (if action = ''listIssues'' then
        (let teamId = readStringParam ps ''teamId'';
             projectId = readStringParam ps ''projectId''
         in and_then (listIssues_variables parse (listIssues_filter teamId projectId))
              (\<lambda>variables.
            and_then (linearGraphQL w listIssues_query variables apiKey) (success action)))
      else if action = ''getIssue'' then
        and_then (lift (readStringParam_required ps ''issueId'')) (\<lambda>issueId.
        and_then (linearGraphQL w getIssue_query (JObj [(''id'', JStr issueId)]) apiKey)
          (success action))
      else if action = ''createIssue'' then
        and_then (lift (readStringParam_required ps ''teamId'')) (\<lambda>teamId.
        and_then (lift (readStringParam_required ps ''title'')) (\<lambda>title.
          (let description = readStringParam ps ''description'';
               priority = param ps ''priority'';
               projectId = readStringParam ps ''projectId''
           in and_then
                (linearGraphQL w createIssue_query
                   (JObj [(''input'',
                      JObj [(''teamId'', JStr teamId), (''title'', JStr title),
                            (''description'', js_of description), (''priority'', priority),
                            (''projectId'', js_of projectId)])])
                   apiKey)
                (success action))))
      else if action = ''updateIssue'' then
        and_then (lift (readStringParam_required ps ''issueId'')) (\<lambda>issueId.
          (let title = readStringParam ps ''title'';
               description = readStringParam ps ''description'';
               stateId = readStringParam ps ''stateId'';
               priority = param ps ''priority''
           in and_then
                (linearGraphQL w updateIssue_query
                   (JObj [(''id'', JStr issueId),
                          (''input'', updateIssue_input title description stateId priority)])
                   apiKey)
                (success action)))
      else if action = ''listProjects'' then
        and_then (linearGraphQL w listProjects_query (JObj []) apiKey) (success action)
      else if action = ''listTeams'' then
        and_then (linearGraphQL w listTeams_query (JObj []) apiKey) (success action)
      else if action = ''searchIssues'' then
        and_then (lift (readStringParam_required ps ''query'')) (\<lambda>query.
        and_then (linearGraphQL w searchIssues_query (JObj [(''query'', JStr query)]) apiKey)
          (success action))
      else unknown_action action)"

definition linear_try :: "world \<Rightarrow> params \<Rightarrow> string \<Rightarrow> string \<Rightarrow> envelope io" where
  "linear_try w ps action apiKey = linear_try_with JSON_parse w ps action apiKey"

definition linear_execute_with ::
  "(string \<Rightarrow> js_error + jsval) \<Rightarrow> world \<Rightarrow> params \<Rightarrow> envelope io" where
  "linear_execute_with parse w ps =
     and_then (lift (readStringParam_required ps ''action'')) (\<lambda>action.
       case credential w ''LINEAR_API_KEY'' of
         None \<Rightarrow>
           missing_credential ''Linear API key not configured. Set LINEAR_API_KEY.''
             ''missing_api_key''
       | Some apiKey \<Rightarrow> catch ''Linear'' action (linear_try_with parse w ps action apiKey))"

definition linear_execute :: "world \<Rightarrow> params \<Rightarrow> envelope io" where
  "linear_execute w ps = linear_execute_with JSON_parse w ps"

section \<open>The GitHub tool\<close>

text \<open>\<^verbatim>\<open>githubRequest\<close>; a body that is left out is \<^verbatim>\<open>undefined\<close>.\<close>

definition github_request :: "string \<Rightarrow> string \<Rightarrow> string \<Rightarrow> jsval \<Rightarrow> request" where
  "github_request endpoint token meth body =
     \<lparr>req_method = meth,
      req_url = ''https://api.github.com'' @ endpoint,
      req_headers =
        [(''Authorization'', ''Bearer '' @ token),
         (''Accept'', ''application/vnd.github+json''),
         (''X-GitHub-Api-Version'', ''2022-11-28'')]
        @ (if truthy body then [(''Content-Type'', ''application/json'')] else []),
      req_body = (if truthy body then Some (JsonBody body) else None)\<rparr>"

definition githubRequest :: "world \<Rightarrow> string \<Rightarrow> string \<Rightarrow> string \<Rightarrow> jsval \<Rightarrow> jsval io" where
  "githubRequest w endpoint token meth body =
     and_then (js_fetch w (github_request endpoint token meth body)) (\<lambda>response.
       if \<not> ok response then
         and_then (lift (resp_text response)) (\<lambda>error.
           throw (Error (''GitHub API error ('' @ show_nat (resp_status response) @ ''): '' @ error)))
       else lift (resp_json response))"

text \<open>\<^verbatim>\<open>if (!owner || !repo) throw new Error("owner and repo are required for ...")\<close>, and
  the pair when both are there.\<close>

definition owner_and_repo :: "string option \<Rightarrow> string option \<Rightarrow> string \<Rightarrow> (string \<times> string) io" where
  "owner_and_repo owner repo action =
     (case (owner, repo) of
        (Some ow, Some re) \<Rightarrow>
          if ow = [] \<or> re = [] then throw (Error (''owner and repo are required for '' @ action))
          else ret (ow, re)
      | _ \<Rightarrow> throw (Error (''owner and repo are required for '' @ action)))"

definition github_try :: "world \<Rightarrow> params \<Rightarrow> string \<Rightarrow> string \<Rightarrow> envelope io" where
  "github_try w ps action token =
     (let owner = readStringParam ps ''owner'';
          repo = readStringParam ps ''repo'';
          state = or_else (readStringParam ps ''state'') ''open''
      in
      if action = ''getRepo'' then
        and_then (owner_and_repo owner repo ''getRepo'') (\<lambda>(ow, re).
        and_then (githubRequest w (''/repos/'' @ ow @ ''/'' @ re) token ''GET'' Undefined)
          (success action))
      else if action = ''listIssues'' then
        and_then (owner_and_repo owner repo ''listIssues'') (\<lambda>(ow, re).
        and_then
          (githubRequest w
             (''/repos/'' @ ow @ ''/'' @ re @ ''/issues?state='' @ state @ ''&per_page=30'')
             token ''GET'' Undefined)
          (success action))
      else if action = ''getIssue'' then
        and_then (owner_and_repo owner repo ''getIssue'') (\<lambda>(ow, re).
          (let number = param ps ''number''
           in if \<not> truthy number then throw (Error ''number is required for getIssue'')
              else
                and_then (lift (to_string w number)) (\<lambda>n.
                and_then
                  (githubRequest w (''/repos/'' @ ow @ ''/'' @ re @ ''/issues/'' @ n)
                     token ''GET'' Undefined)
                  (success action))))
      else if action = ''createIssue'' then
        and_then (owner_and_repo owner repo ''createIssue'') (\<lambda>(ow, re).
        and_then (lift (readStringParam_required ps ''title'')) (\<lambda>title.
          (let body = readStringParam ps ''body''
           in and_then
                (githubRequest w (''/repos/'' @ ow @ ''/'' @ re @ ''/issues'') token ''POST''
                   (JObj [(''title'', JStr title), (''body'', js_of body)]))
                (success action))))
      else if action = ''listPRs'' then
        and_then (owner_and_repo owner repo ''listPRs'') (\<lambda>(ow, re).
        and_then
          (githubRequest w
             (''/repos/'' @ ow @ ''/'' @ re @ ''/pulls?state='' @ state @ ''&per_page=30'')
             token ''GET'' Undefined)
          (success action))
      else if action = ''getPR'' then
        and_then (owner_and_repo owner repo ''getPR'') (\<lambda>(ow, re).
          (let number = param ps ''number''
           in if \<not> truthy number then throw (Error ''number is required for getPR'')
              else
                and_then (lift (to_string w number)) (\<lambda>n.
                and_then
                  (githubRequest w (''/repos/'' @ ow @ ''/'' @ re @ ''/pulls/'' @ n)
                     token ''GET'' Undefined)
                  (success action))))
      else if action = ''searchCode'' then
        and_then (lift (readStringParam_required ps ''query'')) (\<lambda>query.
        and_then (lift (encodeURIComponent w query)) (\<lambda>q.
        and_then (githubRequest w (''/search/code?q='' @ q @ ''&per_page=30'') token ''GET'' Undefined)
          (success action)))
      else if action = ''searchRepos'' then
        and_then (lift (readStringParam_required ps ''query'')) (\<lambda>query.
        and_then (lift (encodeURIComponent w query)) (\<lambda>q.
        and_then
          (githubRequest w (''/search/repositories?q='' @ q @ ''&per_page=30'') token ''GET''
             Undefined)
          (success action)))
      else if action = ''getUser'' then
        (let username = readStringParam ps ''username''
         in and_then
              (case username of
                 Some u \<Rightarrow>
                   if u \<noteq> [] then githubRequest w (''/users/'' @ u) token ''GET'' Undefined
                   else githubRequest w ''/user'' token ''GET'' Undefined
               | None \<Rightarrow> githubRequest w ''/user'' token ''GET'' Undefined)
              (success action))
      else if action = ''listGists'' then
        (let username = readStringParam ps ''username''
         in and_then
              (case username of
                 Some u \<Rightarrow>
                   if u \<noteq> []
                   then githubRequest w (''/users/'' @ u @ ''/gists?per_page=30'') token ''GET''
                          Undefined
                   else githubRequest w ''/gists?per_page=30'' token ''GET'' Undefined
               | None \<Rightarrow> githubRequest w ''/gists?per_page=30'' token ''GET'' Undefined)
              (success action))
      else unknown_action action)"

definition github_execute :: "world \<Rightarrow> params \<Rightarrow> envelope io" where
  "github_execute w ps =
     and_then (lift (readStringParam_required ps ''action'')) (\<lambda>action.
       case credential w ''GITHUB_TOKEN'' of
         None \<Rightarrow> missing_credential ''GitHub token not configured. Set GITHUB_TOKEN.'' ''missing_token''
       | Some token \<Rightarrow> catch ''GitHub'' action (github_try w ps action token))"

section \<open>The ElevenLabs tool\<close>

definition DEFAULT_VOICE_ID :: string where
  "DEFAULT_VOICE_ID = ''21m00Tcm4TlvDq8ikWAM''"

definition DEFAULT_MODEL_ID :: string where
  "DEFAULT_MODEL_ID = ''eleven_multilingual_v2''"

text \<open>\<^verbatim>\<open>elevenlabsRequest\<close>: an audio response is returned as its base64 text with the
  content type, any other as its JSON.\<close>

definition elevenlabs_request :: "string \<Rightarrow> string \<Rightarrow> string \<Rightarrow> payload option \<Rightarrow> bool \<Rightarrow> request" where
  "elevenlabs_request endpoint apiKey meth body isFormData =
     \<lparr>req_method = meth,
      req_url = ''https://api.elevenlabs.io/v1'' @ endpoint,
      req_headers =
        [(''xi-api-key'', apiKey)]
        @ (if \<not> isFormData \<and> body \<noteq> None then [(''Content-Type'', ''application/json'')] else []),
      req_body = body\<rparr>"

definition elevenlabsRequest :: "world \<Rightarrow> string \<Rightarrow> string \<Rightarrow> string \<Rightarrow> payload option \<Rightarrow> bool \<Rightarrow> jsval io" where
  "elevenlabsRequest w endpoint apiKey meth body isFormData =
     and_then (js_fetch w (elevenlabs_request endpoint apiKey meth body isFormData)) (\<lambda>response.
       if \<not> ok response then
         and_then (lift (resp_text response)) (\<lambda>error.
           throw (Error (''ElevenLabs API error ('' @ show_nat (resp_status response) @ ''): ''
                         @ error)))
       else
         (case resp_content_type response of
            Some contentType \<Rightarrow>
              if includes_str contentType ''audio'' then
                and_then (lift (resp_blob response)) (\<lambda>buffer.
                  ret (JObj [(''audio'', JStr (base64 w buffer)),
                             (''contentType'', JStr contentType)]))
              else lift (resp_json response)
          | None \<Rightarrow> lift (resp_json response)))"

definition tts_body :: "string \<Rightarrow> string \<Rightarrow> jsval \<Rightarrow> jsval \<Rightarrow> jsval \<Rightarrow> payload" where
  "tts_body text modelId stability similarityBoost style =
     JsonBody (JObj
       [(''text'', JStr text),
        (''model_id'', JStr modelId),
        (''voice_settings'', JObj
           [(''stability'', stability),
            (''similarity_boost'', similarityBoost),
            (''style'', style),
            (''use_speaker_boost'', JBool True)])])"

definition audio_envelope :: "string \<Rightarrow> string \<Rightarrow> envelope" where
  "audio_envelope action text =
     \<lparr>content = [text_block text],
      details = [(''action'', JStr action), (''success'', JBool True), (''hasAudio'', JBool True)]\<rparr>"

definition elevenlabs_try :: "world \<Rightarrow> params \<Rightarrow> string \<Rightarrow> string \<Rightarrow> envelope io" where
  "elevenlabs_try w ps action apiKey =
     (if action = ''textToSpeech'' then
        and_then (lift (readStringParam_required ps ''text'')) (\<lambda>text.
          (let voiceId = or_else (readStringParam ps ''voiceId'') DEFAULT_VOICE_ID;
               modelId = or_else (readStringParam ps ''modelId'') DEFAULT_MODEL_ID;
               stability = nullish (param ps ''stability'') (JNum (1 / 2));
               similarityBoost = nullish (param ps ''similarityBoost'') (JNum (3 / 4));
               style = nullish (param ps ''style'') (JNum 0);
               outputFormat = or_else (readStringParam ps ''outputFormat'') ''mp3_44100_128''
           in and_then
                (elevenlabsRequest w
                   (''/text-to-speech/'' @ voiceId @ ''?output_format='' @ outputFormat)
                   apiKey ''POST''
                   (Some (tts_body text modelId stability similarityBoost style)) False)
                (\<lambda>result.
                   if has_audio result then
                     and_then (lift (member result ''contentType'')) (\<lambda>ct.
                     and_then (lift (to_string w ct)) (\<lambda>contentType.
                     and_then (lift (member result ''audio'')) (\<lambda>audio.
                     and_then (lift (substring_0_100 audio)) (\<lambda>preview.
                       ret (audio_envelope action
                              (''Audio generated successfully ('' @ contentType
                               @ ''). Base64 audio data: '' @ preview @ ''... (truncated)''))))))
                   else success action result)))
      else if action = ''listVoices'' then
        and_then (elevenlabsRequest w ''/voices'' apiKey ''GET'' None False) (success action)
      else if action = ''getVoice'' then
        and_then (lift (readStringParam_required ps ''voiceId'')) (\<lambda>voiceId.
        and_then (elevenlabsRequest w (''/voices/'' @ voiceId) apiKey ''GET'' None False)
          (success action))
      else if action = ''speechToSpeech'' then
        and_then (lift (readStringParam_required ps ''audioUrl'')) (\<lambda>audioUrl.
          (let voiceId = or_else (readStringParam ps ''voiceId'') DEFAULT_VOICE_ID;
               modelId = or_else (readStringParam ps ''modelId'') ''eleven_english_sts_v2'';
               stability = nullish (param ps ''stability'') (JNum (1 / 2));
               similarityBoost = nullish (param ps ''similarityBoost'') (JNum (3 / 4))
           in and_then (js_fetch w (get_request audioUrl)) (\<lambda>audioResponse.
              if \<not> ok audioResponse then
                throw (Error (''Failed to fetch audio: '' @ show_nat (resp_status audioResponse)))
              else
                and_then (lift (resp_blob audioResponse)) (\<lambda>audioBlob.
                and_then
                  (elevenlabsRequest w (''/speech-to-speech/'' @ voiceId) apiKey ''POST''
                     (Some (FormData
                        [(''audio'', FormBlob audioBlob ''audio.mp3''),
                         (''model_id'', FormText modelId),
                         (''voice_settings'', FormJson (JObj
                            [(''stability'', stability),
                             (''similarity_boost'', similarityBoost)]))]))
                     True)
                  (\<lambda>result.
                     if has_audio result then
                       and_then (lift (member result ''audio'')) (\<lambda>audio.
                       and_then (lift (substring_0_100 audio)) (\<lambda>preview.
                         ret (audio_envelope action
                                (''Speech-to-speech conversion successful. Base64 audio: ''
                                 @ preview @ ''... (truncated)''))))
                     else success action result)))))
      else if action = ''getModels'' then
        and_then (elevenlabsRequest w ''/models'' apiKey ''GET'' None False) (success action)
      else if action = ''getHistory'' then
        and_then (elevenlabsRequest w ''/history'' apiKey ''GET'' None False) (success action)
      else unknown_action action)"

definition elevenlabs_execute :: "world \<Rightarrow> params \<Rightarrow> envelope io" where
  "elevenlabs_execute w ps =
     and_then (lift (readStringParam_required ps ''action'')) (\<lambda>action.
       case credential w ''ELEVENLABS_API_KEY'' of
         None \<Rightarrow>
           missing_credential ''ElevenLabs API key not configured. Set ELEVENLABS_API_KEY.''
             ''missing_api_key''
       | Some apiKey \<Rightarrow> catch ''ElevenLabs'' action (elevenlabs_try w ps action apiKey))"

section \<open>The OpenAI tool\<close>

definition openai_request :: "string \<Rightarrow> string \<Rightarrow> jsval \<Rightarrow> request" where
  "openai_request endpoint apiKey body =
     \<lparr>req_method = ''POST'',
      req_url = ''https://api.openai.com/v1'' @ endpoint,
      req_headers =
        [(''Authorization'', ''Bearer '' @ apiKey), (''Content-Type'', ''application/json'')],
      req_body = Some (JsonBody body)\<rparr>"

definition openaiRequest :: "world \<Rightarrow> string \<Rightarrow> string \<Rightarrow> jsval \<Rightarrow> jsval io" where
  "openaiRequest w endpoint apiKey body =
     and_then (js_fetch w (openai_request endpoint apiKey body)) (\<lambda>response.
       if \<not> ok response then
         and_then (lift (resp_text response)) (\<lambda>error.
           throw (Error (''OpenAI API error ('' @ show_nat (resp_status response) @ ''): '' @ error)))
       else lift (resp_json response))"

definition chat_message :: "string \<Rightarrow> string \<Rightarrow> jsval" where
  "chat_message role text = JObj [(''role'', JStr role), (''content'', JStr text)]"

definition whisper_request :: "string \<Rightarrow> string \<Rightarrow> request" where
  "whisper_request apiKey audioBlob =
     \<lparr>req_method = ''POST'',
      req_url = ''https://api.openai.com/v1/audio/transcriptions'',
      req_headers = [(''Authorization'', ''Bearer '' @ apiKey)],
      req_body = Some (FormData
        [(''file'', FormBlob audioBlob ''audio.mp3''), (''model'', FormText ''whisper-1'')])\<rparr>"

definition openai_try :: "world \<Rightarrow> params \<Rightarrow> string \<Rightarrow> string \<Rightarrow> envelope io" where
  "openai_try w ps action apiKey =
     (if action = ''chat'' then
        and_then (lift (readStringParam_required ps ''prompt'')) (\<lambda>prompt.
          (let model = or_else (readStringParam ps ''model'') ''gpt-4o-mini'';
               systemPrompt = readStringParam ps ''systemPrompt'';
               messages =
                 (case systemPrompt of
                    Some sp \<Rightarrow> if sp \<noteq> [] then [chat_message ''system'' sp] else []
                  | None \<Rightarrow> [])
                 @ [chat_message ''user'' prompt]
           in and_then
                (openaiRequest w ''/chat/completions'' apiKey
                   (JObj [(''model'', JStr model), (''messages'', JArr messages)]))
                (success action)))
      else if action = ''embedding'' then
        and_then (lift (readStringParam_required ps ''text'')) (\<lambda>text.
          (let model = or_else (readStringParam ps ''model'') ''text-embedding-3-small''
           in and_then
                (openaiRequest w ''/embeddings'' apiKey
                   (JObj [(''model'', JStr model), (''input'', JStr text)]))
                (success action)))
      else if action = ''moderation'' then
        and_then (lift (readStringParam_required ps ''text'')) (\<lambda>text.
        and_then (openaiRequest w ''/moderations'' apiKey (JObj [(''input'', JStr text)]))
          (success action))
      else if action = ''transcribe'' then
        and_then (lift (readStringParam_required ps ''audioUrl'')) (\<lambda>audioUrl.
        and_then (js_fetch w (get_request audioUrl)) (\<lambda>audioResponse.
          if \<not> ok audioResponse then
            throw (Error (''Failed to fetch audio: '' @ show_nat (resp_status audioResponse)))
          else
            and_then (lift (resp_blob audioResponse)) (\<lambda>audioBlob.
            and_then (js_fetch w (whisper_request apiKey audioBlob)) (\<lambda>response.
              if \<not> ok response then
                and_then (lift (resp_text response)) (\<lambda>error.
                  throw (Error (''Whisper API error ('' @ show_nat (resp_status response)
                                @ ''): '' @ error)))
              else and_then (lift (resp_json response)) (success action)))))
      else unknown_action action)"

definition openai_execute :: "world \<Rightarrow> params \<Rightarrow> envelope io" where
  "openai_execute w ps =
     and_then (lift (readStringParam_required ps ''action'')) (\<lambda>action.
       case credential w ''OPENAI_API_KEY'' of
         None \<Rightarrow>
           missing_credential ''OpenAI API key not configured. Set OPENAI_API_KEY.''
             ''missing_api_key''
       | Some apiKey \<Rightarrow> catch ''OpenAI'' action (openai_try w ps action apiKey))"

section \<open>The four tools together\<close>

datatype tool = Linear | GitHub | ElevenLabs | OpenAI

fun execute :: "tool \<Rightarrow> world \<Rightarrow> params \<Rightarrow> envelope io" where
  "execute Linear = linear_execute"
| "execute GitHub = github_execute"
| "execute ElevenLabs = elevenlabs_execute"
| "execute OpenAI = openai_execute"

text \<open>The environment variable that holds each provider's credential, and the code the
  envelope carries when it is not set.\<close>

fun credential_variable :: "tool \<Rightarrow> string" where
  "credential_variable Linear = ''LINEAR_API_KEY''"
| "credential_variable GitHub = ''GITHUB_TOKEN''"
| "credential_variable ElevenLabs = ''ELEVENLABS_API_KEY''"
| "credential_variable OpenAI = ''OPENAI_API_KEY''"

fun missing_code :: "tool \<Rightarrow> string" where
  "missing_code GitHub = ''missing_token''"
| "missing_code t = ''missing_api_key''"

text \<open>The text of that envelope, and each tool's \<^verbatim>\<open>try\<close> block.\<close>

fun explanation :: "tool \<Rightarrow> string" where
  "explanation Linear = ''Linear API key not configured. Set LINEAR_API_KEY.''"
| "explanation GitHub = ''GitHub token not configured. Set GITHUB_TOKEN.''"
| "explanation ElevenLabs = ''ElevenLabs API key not configured. Set ELEVENLABS_API_KEY.''"
| "explanation OpenAI = ''OpenAI API key not configured. Set OPENAI_API_KEY.''"

fun try_block :: "tool \<Rightarrow> world \<Rightarrow> params \<Rightarrow> string \<Rightarrow> string \<Rightarrow> envelope io" where
  "try_block Linear = linear_try"
| "try_block GitHub = github_try"
| "try_block ElevenLabs = elevenlabs_try"
| "try_block OpenAI = openai_try"

fun provider :: "tool \<Rightarrow> string" where
  "provider Linear = ''Linear''"
| "provider GitHub = ''GitHub''"
| "provider ElevenLabs = ''ElevenLabs''"
| "provider OpenAI = ''OpenAI''"

text \<open>
  The parameters an action insists on, in the order in which its branch checks them:
  the reads with \<^verbatim>\<open>{ required: true }\<close>, and in the GitHub tool the tests
  \<^verbatim>\<open>!owner || !repo\<close> and \<^verbatim>\<open>!number\<close>. Every other action, known or not, insists on none.
\<close>

fun required_params :: "tool \<Rightarrow> string \<Rightarrow> string list" where
  "required_params Linear a =
     (if a = ''getIssue'' then [''issueId'']
      else if a = ''createIssue'' then [''teamId'', ''title'']
      else if a = ''updateIssue'' then [''issueId'']
      else if a = ''searchIssues'' then [''query'']
      else [])"
| "required_params GitHub a =
     (if a = ''getRepo'' then [''owner'', ''repo'']
      else if a = ''listIssues'' then [''owner'', ''repo'']
      else if a = ''getIssue'' then [''owner'', ''repo'', ''number'']
      else if a = ''createIssue'' then [''owner'', ''repo'', ''title'']
      else if a = ''listPRs'' then [''owner'', ''repo'']
      else if a = ''getPR'' then [''owner'', ''repo'', ''number'']
      else if a = ''searchCode'' then [''query'']
      else if a = ''searchRepos'' then [''query'']
      else [])"
| "required_params ElevenLabs a =
     (if a = ''textToSpeech'' then [''text'']
      else if a = ''getVoice'' then [''voiceId'']
      else if a = ''speechToSpeech'' then [''audioUrl'']
      else [])"
| "required_params OpenAI a =
     (if a = ''chat'' then [''prompt'']
      else if a = ''embedding'' then [''text'']
      else if a = ''moderation'' then [''text'']
      else if a = ''transcribe'' then [''audioUrl'']
      else [])"

text \<open>A parameter is missing or empty when the arguments do not hold it or hold the
  empty string; a branch turns a parameter down when its test of it fails.\<close>

definition missing_or_empty :: "params \<Rightarrow> string \<Rightarrow> bool" where
  "missing_or_empty ps p = (ps p = None \<or> ps p = Some (JStr []))"

definition turned_down :: "params \<Rightarrow> string \<Rightarrow> bool" where
  "turned_down ps p =
     (if p = ''number'' then \<not> truthy (param ps p) else readStringParam ps p = None)"


section \<open>Example worlds\<close>

text \<open>Worlds for the concrete runs below: an environment, a network, and stand-ins for
  the built-ins.\<close>

definition example_world :: "(string \<rightharpoonup> string) \<Rightarrow> (request \<Rightarrow> js_error + response) \<Rightarrow> world" where
  "example_world env net =
     \<lparr>process_env = env, fetch = net,
      string_of = (\<lambda>v. Inr ''[object Object]''),
      number_of = (\<lambda>v. Inr None),
      encodeURIComponent = Inr,
      base64 = (\<lambda>bytes. bytes)\<rparr>"

definition all_keys :: "string \<rightharpoonup> string" where
  "all_keys =
     [''LINEAR_API_KEY'' \<mapsto> ''lin_api_key'', ''GITHUB_TOKEN'' \<mapsto> ''ghp_token'',
      ''ELEVENLABS_API_KEY'' \<mapsto> ''xi_key'', ''OPENAI_API_KEY'' \<mapsto> ''sk_key'']"

definition answers :: "response \<Rightarrow> request \<Rightarrow> js_error + response" where
  "answers r req = Inr r"

definition json_ok :: "string \<Rightarrow> response" where
  "json_ok text =
     \<lparr>resp_status = 200, resp_content_type = Some ''application/json'', resp_body = Inr text\<rparr>"

definition not_found :: response where
  "not_found =
     \<lparr>resp_status = 404, resp_content_type = Some ''text/plain'', resp_body = Inr ''Not Found''\<rparr>"

definition entity_not_found_body :: string where
  "entity_not_found_body =
     ''{\"data\":{\"issue\":null},\"errors\":[{\"message\":\"Entity not found\"}]}''"

definition errors_only_body :: string where
  "errors_only_body = ''{\"errors\":[{\"message\":\"Entity not found\"}]}''"

definition no_issues_body :: string where
  "no_issues_body = ''{\"data\":{\"issues\":{\"nodes\":[]}}}''"

definition textToSpeech_args :: params where
  "textToSpeech_args = [''action'' \<mapsto> JStr ''textToSpeech'', ''text'' \<mapsto> JStr ''Hello'']"

definition transcribe_args :: params where
  "transcribe_args =
     [''action'' \<mapsto> JStr ''transcribe'', ''audioUrl'' \<mapsto> JStr ''https://example.com/a.mp3'']"

definition listIssues_team_args :: params where
  "listIssues_team_args = [''action'' \<mapsto> JStr ''listIssues'', ''teamId'' \<mapsto> JStr ''T1'']"


definition listIssues_quote_args :: params where
  "listIssues_quote_args =
     [''action'' \<mapsto> JStr ''listIssues'', ''teamId'' \<mapsto> JStr ''T\"1'']"

definition listVoices_args :: params where
  "listVoices_args = [''action'' \<mapsto> JStr ''listVoices'']"

definition createIssue_args :: params where
  "createIssue_args = [''action'' \<mapsto> JStr ''createIssue'', ''teamId'' \<mapsto> JStr ''T1'']"

definition getRepo_args :: params where
  "getRepo_args = [''action'' \<mapsto> JStr ''getRepo'', ''owner'' \<mapsto> JStr ''octo'', ''repo'' \<mapsto> JStr ''demo'']"

definition getIssue_only_args :: params where
  "getIssue_only_args = [''action'' \<mapsto> JStr ''getIssue'']"


section \<open>What a computation can return\<close>

text \<open>\<open>yields P m\<close>: if \<open>m\<close> returns, what it returns satisfies \<open>P\<close>. What the \<^verbatim>\<open>try\<close> block
  of tool \<open>t\<close> returns for action \<open>a\<close>: for an action the tool knows the plain success, or
  the success with audio in the two branches of the ElevenLabs tool that produce audio;
  for any other action the unknown action.\<close>

definition yields :: "('a \<Rightarrow> bool) \<Rightarrow> 'a io \<Rightarrow> bool" where
  "yields P m = (case fst m of Inl e \<Rightarrow> True | Inr x \<Rightarrow> P x)"


section \<open>Laws of the computations\<close>

declare show_nat.simps [simp del]

lemma lift_Inr: "lift (Inr x) = ret x"
  by (simp add: lift_def ret_def)

lemma lift_Inl: "lift (Inl e) = throw e"
  by (simp add: lift_def throw_def)

lemma and_then_ret: "and_then (ret x) f = f x"
  by (simp add: and_then_def ret_def split: prod.splits)

lemma and_then_throw: "and_then (throw e) f = throw e"
  by (simp add: and_then_def throw_def)

lemma ret_inject: "ret x = ret y \<longleftrightarrow> x = y"
  by (simp add: ret_def)

lemma catch_ret: "catch p a (ret e) = ret e"
  by (simp add: catch_def ret_def)

lemma catch_throw:
  "catch p a (throw err) =
     ret \<lparr>content = [text_block (p @ '' error: '' @ message err)],
          details = [(''action'', JStr a), (''error'', JStr (message err))]\<rparr>"
  by (simp add: catch_def ret_def throw_def)

lemma catch_returns: "\<exists>e. fst (catch p a m) = Inr e"
  by (cases m; cases "fst m") (auto simp: catch_def)

lemma missing_credential_returns: "\<exists>e. fst (missing_credential x c) = Inr e"
  by (simp add: missing_credential_def ret_def)

lemma throw_pair: "throw e = (Inl e, [])"
  by (simp add: throw_def)

lemma and_then_fetch:
  "and_then (js_fetch w req) f =
     (case fetch w req of
        Inl e \<Rightarrow> (Inl e, [req])
      | Inr response \<Rightarrow> (fst (f response), req # snd (f response)))"
  by (simp add: and_then_def js_fetch_def split: sum.splits prod.splits)

subsection \<open>The requests a computation sends\<close>

lemma snd_simps:
  "snd (ret x) = []" "snd (throw e) = []" "snd (lift r) = []"
  "snd (success a v) = []" "snd (catch p a m) = snd m"
  by (auto simp: ret_def throw_def lift_def success_def catch_def split: prod.splits sum.splits)

lemma snd_and_then_lift:
  "snd (and_then (lift r) f) = (case r of Inl e \<Rightarrow> [] | Inr x \<Rightarrow> snd (f x))"
  by (cases r) (simp_all add: lift_Inl lift_Inr and_then_ret and_then_throw snd_simps)

lemma snd_and_then_quiet:
  assumes "\<And>x. snd (f x) = []"
  shows "snd (and_then m f) = snd m"
proof (cases m)
  case (Pair r sent)
  show ?thesis
  proof (cases r)
    case (Inl e)
    with Pair show ?thesis by (simp add: and_then_def)
  next
    case (Inr x)
    obtain r' sent' where fx: "f x = (r', sent')" by (cases "f x")
    with assms[of x] have "sent' = []" by simp
    with Pair Inr fx show ?thesis by (simp add: and_then_def)
  qed
qed

lemma snd_elevenlabsRequest:
  "snd (elevenlabsRequest w endpoint k meth body form)
     = [elevenlabs_request endpoint k meth body form]"
  by (auto simp: elevenlabsRequest_def and_then_fetch snd_simps snd_and_then_lift
      split: sum.splits option.splits)

subsection \<open>Reading parameters\<close>

lemma read_action:
  "ps ''action'' = Some (JStr a) \<Longrightarrow> a \<noteq> [] \<Longrightarrow> readStringParam_required ps ''action'' = Inr a"
  by (simp add: readStringParam_required_def readStringParam_def)


lemma required_turned_down:
  "readStringParam ps k = None \<Longrightarrow> readStringParam_required ps k = Inl (Error (k @ '' required''))"
  by (simp add: readStringParam_required_def)

lemma required_accepted:
  "readStringParam ps k = Some s \<Longrightarrow> readStringParam_required ps k = Inr s"
  by (simp add: readStringParam_required_def)

lemma readStringParam_nonempty: "readStringParam ps k = Some s \<Longrightarrow> s \<noteq> []"
  by (auto simp: readStringParam_def split: option.splits jsval.splits if_splits)

lemma readStringParam_not_empty: "readStringParam ps k = Some [] \<longleftrightarrow> False"
  by (auto simp: readStringParam_def split: option.splits jsval.splits if_splits)

lemma readStringParam_string:
  "ps k = Some (JStr s) \<Longrightarrow> s \<noteq> [] \<Longrightarrow> readStringParam ps k = Some s"
  by (simp add: readStringParam_def)

lemma missing_or_empty_turned_down: "missing_or_empty ps p \<Longrightarrow> turned_down ps p"
  by (auto simp: missing_or_empty_def turned_down_def readStringParam_def param_def)

lemma owner_and_repo_simps:
  "owner_and_repo None repo a = throw (Error (''owner and repo are required for '' @ a))"
  "owner_and_repo owner None a = throw (Error (''owner and repo are required for '' @ a))"
  "owner_and_repo (Some ow) (Some re) a =
     (if ow = [] \<or> re = [] then throw (Error (''owner and repo are required for '' @ a))
      else ret (ow, re))"
  by (auto simp: owner_and_repo_def split: option.splits)

lemmas run_simps =
  lift_Inl lift_Inr and_then_ret and_then_throw catch_throw catch_ret required_turned_down
  required_accepted owner_and_repo_simps readStringParam_not_empty ret_inject

lemmas includes_simps = includes_str_def sublist_code

subsection \<open>The common frame of the four tools\<close>

lemma execute_skeleton:
  "execute t w ps =
     and_then (lift (readStringParam_required ps ''action'')) (\<lambda>action.
       case credential w (credential_variable t) of
         None \<Rightarrow> missing_credential (explanation t) (missing_code t)
       | Some k \<Rightarrow> catch (provider t) action (try_block t w ps action k))"
  by (induction t)
    (simp_all add: linear_execute_def linear_execute_with_def linear_try_def github_execute_def elevenlabs_execute_def
      openai_execute_def cong: option.case_cong)

lemma execute_with_action:
  assumes "ps ''action'' = Some (JStr a)" and "a \<noteq> []"
  shows "execute t w ps =
           (case credential w (credential_variable t) of
              None \<Rightarrow> missing_credential (explanation t) (missing_code t)
            | Some k \<Rightarrow> catch (provider t) a (try_block t w ps a k))"
  using assms by (simp add: execute_skeleton read_action lift_Inr and_then_ret)


subsection \<open>What the try blocks return\<close>

lemma yields_ret: "P x \<Longrightarrow> yields P (ret x)"
  by (simp add: yields_def ret_def)













section \<open>C1: every call returns an envelope\<close>

text \<open>
  C1, as the code has it. A call whose \<^verbatim>\<open>action\<close> argument is a non-empty string returns an
  envelope, whatever the other arguments, the environment and the network are: with
  the credential unset it is the missing-credential envelope, and every throw inside
  the \<^verbatim>\<open>try\<close> block is turned into an envelope by the \<^verbatim>\<open>catch\<close>.
\<close>

theorem execute_returns_envelope:
  assumes "ps ''action'' = Some (JStr a)" and "a \<noteq> []"
  shows "\<exists>e. fst (execute t w ps) = Inr e"
  by (simp add: execute_with_action[where ps = ps and a = a, OF assms] catch_returns
        missing_credential_returns split: option.split)

theorem execute_returns_envelope_witness:
  "getRepo_args ''action'' = Some (JStr ''getRepo'') \<and> ''getRepo'' \<noteq> []
   \<and> (\<exists>e. fst (execute GitHub (example_world all_keys (answers not_found)) getRepo_args) = Inr e)"
proof -
  have present: "getRepo_args ''action'' = Some (JStr ''getRepo'')"
    by (simp add: getRepo_args_def)
  have nonempty: "''getRepo'' \<noteq> []"
    by simp
  from execute_returns_envelope[where ps = getRepo_args and a = "''getRepo''" and t = GitHub
      and w = "example_world all_keys (answers not_found)", OF present nonempty] present
  show ?thesis
    by simp
qed

text \<open>
  C1 as stated fails where it names the missing \<^verbatim>\<open>action\<close>: the action is read, as a
  required parameter, before the \<^verbatim>\<open>try\<close> block, so with no arguments at all the call
  throws instead of returning an envelope.
\<close>

theorem execute_throws_without_action:
  "execute GitHub (example_world all_keys (answers not_found)) Map.empty
     = (Inl (Error ''action required''), [])"
  by (simp add: github_execute_def readStringParam_required_def readStringParam_def
        and_then_def lift_def)

section \<open>C2: the keys of the details\<close>





section \<open>C3: GraphQL errors in an ok response\<close>

text \<open>
  C3. When the response is ok and its JSON body holds an \<^verbatim>\<open>errors\<close> array whose first
  element has the message \<open>m\<close>, \<^verbatim>\<open>linearGraphQL\<close> throws the error
  \<^verbatim>\<open>Linear GraphQL error: m\<close>, whatever else the body holds: its \<^verbatim>\<open>data\<close> is not returned.
\<close>

theorem graphql_errors_fail:
  assumes "fetch w (linear_request query variables apiKey) = Inr response"
    and "ok response"
    and "resp_body response = Inr body"
    and "JSON_parse body = Inr (JObj props)"
    and "map_of props ''errors'' = Some (JArr (JObj first # others))"
    and "map_of first ''message'' = Some (JStr m)"
  shows "linearGraphQL w query variables apiKey =
           (Inl (Error (''Linear GraphQL error: '' @ m)), [linear_request query variables apiKey])
         \<and> includes_str (''Linear GraphQL error: '' @ m) m"
proof -
  have "graphql_result w (JObj props) = throw (Error (''Linear GraphQL error: '' @ m))"
    using assms(5,6) by (simp add: graphql_result_def run_simps)
  then have "linearGraphQL w query variables apiKey =
           (Inl (Error (''Linear GraphQL error: '' @ m)), [linear_request query variables apiKey])"
    using assms(1-4)
    by (simp add: linearGraphQL_def and_then_fetch resp_json_def run_simps throw_pair)
  moreover have "includes_str (''Linear GraphQL error: '' @ m) m"
    unfolding includes_str_def by (rule sublist_append_leftI)
  ultimately show ?thesis by simp
qed

text \<open>The response of the spec's example, here with a \<^verbatim>\<open>data\<close> field beside the errors.\<close>

theorem graphql_errors_fail_witness:
  "fetch (example_world all_keys (answers (json_ok entity_not_found_body)))
      (linear_request getIssue_query (JObj [(''id'', JStr ''I1'')]) ''lin_api_key'')
     = Inr (json_ok entity_not_found_body)
   \<and> ok (json_ok entity_not_found_body)
   \<and> resp_body (json_ok entity_not_found_body) = Inr entity_not_found_body
   \<and> JSON_parse entity_not_found_body =
       Inr (JObj [(''data'', JObj [(''issue'', JNull)]),
                  (''errors'', JArr [JObj [(''message'', JStr ''Entity not found'')]])])
   \<and> linearGraphQL (example_world all_keys (answers (json_ok entity_not_found_body)))
        getIssue_query (JObj [(''id'', JStr ''I1'')]) ''lin_api_key''
      = (Inl (Error ''Linear GraphQL error: Entity not found''),
         [linear_request getIssue_query (JObj [(''id'', JStr ''I1'')]) ''lin_api_key''])
   \<and> includes_str ''Linear GraphQL error: Entity not found'' ''Entity not found''"
proof -
  have net: "fetch (example_world all_keys (answers (json_ok entity_not_found_body)))
      (linear_request getIssue_query (JObj [(''id'', JStr ''I1'')]) ''lin_api_key'')
     = Inr (json_ok entity_not_found_body)"
    by (simp add: example_world_def answers_def)
  have ok: "ok (json_ok entity_not_found_body)"
    by (simp add: ok_def json_ok_def)
  have body: "resp_body (json_ok entity_not_found_body) = Inr entity_not_found_body"
    by (simp add: json_ok_def)
  have parsed: "JSON_parse entity_not_found_body =
       Inr (JObj [(''data'', JObj [(''issue'', JNull)]),
                  (''errors'', JArr [JObj [(''message'', JStr ''Entity not found'')]])])"
    by code_simp
  have errors: "map_of [(''data'', JObj [(''issue'', JNull)]),
                  (''errors'', JArr [JObj [(''message'', JStr ''Entity not found'')]])] ''errors''
       = Some (JArr (JObj [(''message'', JStr ''Entity not found'')] # []))"
    by simp
  have first: "map_of [(''message'', JStr ''Entity not found'')] ''message'' = Some (JStr ''Entity not found'')"
    by simp
  from graphql_errors_fail[OF net ok body parsed errors first] net ok body parsed
  show ?thesis by simp
qed

text \<open>The spec's example as it stands: status 200 and the errors alone.\<close>

lemma entity_not_found_example:
  "linearGraphQL (example_world all_keys (answers (json_ok errors_only_body)))
     getIssue_query (JObj [(''id'', JStr ''I1'')]) ''lin_api_key''
   = (Inl (Error ''Linear GraphQL error: Entity not found''),
      [linear_request getIssue_query (JObj [(''id'', JStr ''I1'')]) ''lin_api_key''])"
  by code_simp

section \<open>C4: a missing credential\<close>

text \<open>
  C4. With the provider's credential variable unset, a call sends no request, whatever
  its arguments are; and for every action, with any other arguments, it returns the
  envelope whose details are the missing-credential code and whose text names the
  variable to set.
\<close>

theorem missing_credential_short_circuits:
  assumes "process_env w (credential_variable t) = None"
  shows "snd (execute t w ps) = []
         \<and> (ps ''action'' = Some (JStr a) \<and> a \<noteq> [] \<longrightarrow>
              fst (execute t w ps) =
                Inr \<lparr>content = [text_block (explanation t)],
                      details = [(''error'', JStr (missing_code t))]\<rparr>)
         \<and> includes_str (explanation t) (credential_variable t)"
proof -
  from assms have unset: "credential w (credential_variable t) = None"
    by (simp add: credential_def)
  have "snd (execute t w ps) = []"
    by (cases "readStringParam_required ps ''action''")
      (simp_all add: execute_skeleton unset lift_Inl lift_Inr and_then_ret and_then_throw
        snd_simps missing_credential_def)
  moreover have "fst (execute t w ps) =
                Inr \<lparr>content = [text_block (explanation t)],
                      details = [(''error'', JStr (missing_code t))]\<rparr>"
    if "ps ''action'' = Some (JStr a)" and "a \<noteq> []"
    using execute_with_action[where ps = ps and a = a and t = t and w = w, OF that] unset
    by (simp add: missing_credential_def ret_def)
  moreover have "includes_str (explanation t) (credential_variable t)"
    by (induction t; code_simp)
  ultimately show ?thesis
    by blast
qed

theorem missing_credential_short_circuits_witness:
  "process_env (example_world Map.empty (answers not_found)) (credential_variable ElevenLabs) = None
   \<and> listVoices_args ''action'' = Some (JStr ''listVoices'') \<and> ''listVoices'' \<noteq> []
   \<and> snd (execute ElevenLabs (example_world Map.empty (answers not_found)) listVoices_args) = []
   \<and> fst (execute ElevenLabs (example_world Map.empty (answers not_found)) listVoices_args) =
        Inr \<lparr>content = [text_block ''ElevenLabs API key not configured. Set ELEVENLABS_API_KEY.''],
              details = [(''error'', JStr ''missing_api_key'')]\<rparr>
   \<and> includes_str ''ElevenLabs API key not configured. Set ELEVENLABS_API_KEY.''
        ''ELEVENLABS_API_KEY''"
proof -
  have unset: "process_env (example_world Map.empty (answers not_found))
                 (credential_variable ElevenLabs) = None"
    by (simp add: example_world_def)
  have present: "listVoices_args ''action'' = Some (JStr ''listVoices'')"
    by (simp add: listVoices_args_def)
  have nonempty: "''listVoices'' \<noteq> []"
    by simp
  from missing_credential_short_circuits[where ps = listVoices_args and a = "''listVoices''"
      and t = ElevenLabs and w = "example_world Map.empty (answers not_found)", OF unset]
    unset present nonempty
  show ?thesis
    by simp
qed

section \<open>C5: a missing parameter\<close>

lemma linear_missing:
  assumes "find (turned_down ps) (required_params Linear a) = Some p"
  shows "\<exists>msg. catch ''Linear'' a (linear_try w ps a k) =
            ret \<lparr>content = [text_block (''Linear error: '' @ msg)],
                 details = [(''action'', JStr a), (''error'', JStr msg)]\<rparr>
          \<and> includes_str msg p"
  using assms
  by (auto simp: turned_down_def split: if_splits)
    (simp_all add: linear_try_def linear_try_with_def run_simps includes_simps)

lemma github_missing:
  assumes "find (turned_down ps) (required_params GitHub a) = Some p"
  shows "\<exists>msg. catch ''GitHub'' a (github_try w ps a k) =
            ret \<lparr>content = [text_block (''GitHub error: '' @ msg)],
                 details = [(''action'', JStr a), (''error'', JStr msg)]\<rparr>
          \<and> includes_str msg p"
  using assms
  apply (auto simp: turned_down_def split: if_splits)
  apply (simp_all add: github_try_def run_simps includes_simps split: if_splits)
  apply (auto dest: readStringParam_nonempty)
  done

lemma elevenlabs_missing:
  assumes "find (turned_down ps) (required_params ElevenLabs a) = Some p"
  shows "\<exists>msg. catch ''ElevenLabs'' a (elevenlabs_try w ps a k) =
            ret \<lparr>content = [text_block (''ElevenLabs error: '' @ msg)],
                 details = [(''action'', JStr a), (''error'', JStr msg)]\<rparr>
          \<and> includes_str msg p"
  using assms
  by (auto simp: turned_down_def split: if_splits)
    (simp_all add: elevenlabs_try_def run_simps includes_simps)

lemma openai_missing:
  assumes "find (turned_down ps) (required_params OpenAI a) = Some p"
  shows "\<exists>msg. catch ''OpenAI'' a (openai_try w ps a k) =
            ret \<lparr>content = [text_block (''OpenAI error: '' @ msg)],
                 details = [(''action'', JStr a), (''error'', JStr msg)]\<rparr>
          \<and> includes_str msg p"
  using assms
  by (auto simp: turned_down_def split: if_splits)
    (simp_all add: openai_try_def run_simps includes_simps)

lemma try_block_missing:
  assumes "find (turned_down ps) (required_params t a) = Some p"
  shows "\<exists>msg. catch (provider t) a (try_block t w ps a k) =
            ret \<lparr>content = [text_block (provider t @ '' error: '' @ msg)],
                 details = [(''action'', JStr a), (''error'', JStr msg)]\<rparr>
          \<and> includes_str msg p"
proof (cases t)
  case Linear
  with linear_missing[of ps a p w k] assms show ?thesis by simp
next
  case GitHub
  with github_missing[of ps a p w k] assms show ?thesis by simp
next
  case ElevenLabs
  with elevenlabs_missing[of ps a p w k] assms show ?thesis by simp
next
  case OpenAI
  with openai_missing[of ps a p w k] assms show ?thesis by simp
qed

lemma required_params_empty: "required_params t [] = []"
  by (cases t) simp_all

text \<open>
  C5, as the code has it. The credential is set and the action is \<open>a\<close>. If \<open>p\<close> is missing
  or empty and is the first of the parameters \<open>a\<close> insists on that its branch turns down,
  then the call returns the error envelope whose \<^verbatim>\<open>details.error\<close> names \<open>p\<close>, and it sends
  no request.
\<close>

theorem missing_parameter_is_named:
  assumes "credential w (credential_variable t) = Some k"
    and "ps ''action'' = Some (JStr a)"
    and "missing_or_empty ps p"
    and "find (turned_down ps) (required_params t a) = Some p"
  shows "\<exists>msg. execute t w ps =
            (Inr \<lparr>content = [text_block (provider t @ '' error: '' @ msg)],
                   details = [(''action'', JStr a), (''error'', JStr msg)]\<rparr>, [])
          \<and> includes_str msg p"
proof -
  from assms(4) have "a \<noteq> []"
    by (auto simp: required_params_empty)
  from execute_with_action[where ps = ps and a = a and t = t and w = w, OF assms(2) this] assms(1)
  have "execute t w ps = catch (provider t) a (try_block t w ps a k)"
    by simp
  with try_block_missing[OF assms(4), of w k] show ?thesis
    by (simp add: ret_def)
qed

theorem missing_parameter_is_named_witness:
  "credential (example_world all_keys (answers not_found)) (credential_variable Linear)
     = Some ''lin_api_key''
   \<and> createIssue_args ''action'' = Some (JStr ''createIssue'')
   \<and> missing_or_empty createIssue_args ''title''
   \<and> find (turned_down createIssue_args) (required_params Linear ''createIssue'') = Some ''title''
   \<and> (\<exists>msg. execute Linear (example_world all_keys (answers not_found)) createIssue_args =
            (Inr \<lparr>content = [text_block (''Linear error: '' @ msg)],
                   details = [(''action'', JStr ''createIssue''), (''error'', JStr msg)]\<rparr>, [])
          \<and> includes_str msg ''title'')"
proof -
  have cred: "credential (example_world all_keys (answers not_found)) (credential_variable Linear)
     = Some ''lin_api_key''"
    by (simp add: credential_def example_world_def all_keys_def)
  have present: "createIssue_args ''action'' = Some (JStr ''createIssue'')"
    by (simp add: createIssue_args_def)
  have missing: "missing_or_empty createIssue_args ''title''"
    by (simp add: missing_or_empty_def createIssue_args_def)
  have first: "find (turned_down createIssue_args) (required_params Linear ''createIssue'')
     = Some ''title''"
    by (simp add: turned_down_def readStringParam_def createIssue_args_def)
  from missing_parameter_is_named[where t = Linear and ps = createIssue_args
      and a = "''createIssue''" and p = "''title''", OF cred present missing first]
    cred present missing first
  show ?thesis
    by simp
qed

text \<open>
  C5 as stated fails when a parameter checked earlier is missing too: GitHub \<^verbatim>\<open>getIssue\<close>
  insists on \<^verbatim>\<open>number\<close>, and called with the action alone it stops at the test of
  \<^verbatim>\<open>owner\<close> and \<^verbatim>\<open>repo\<close>, whose message does not name \<^verbatim>\<open>number\<close>.
\<close>

theorem missing_number_is_not_named:
  "''number'' \<in> set (required_params GitHub ''getIssue'')
   \<and> missing_or_empty getIssue_only_args ''number''
   \<and> execute GitHub (example_world all_keys (answers not_found)) getIssue_only_args =
       (Inr \<lparr>content = [text_block ''GitHub error: owner and repo are required for getIssue''],
              details = [(''action'', JStr ''getIssue''),
                         (''error'', JStr ''owner and repo are required for getIssue'')]\<rparr>, [])
   \<and> \<not> includes_str ''owner and repo are required for getIssue'' ''number''"
  by code_simp

section \<open>C6: a listing with a team filter\<close>

text \<open>
  C6 at the input \<^verbatim>\<open>{action: "listIssues", teamId: "T1"}\<close> of the Linear tool, with the
  credential set and a network that answers every request with an ok response. The
  filter fragment \<^verbatim>\<open>team: { id: { eq: "T1" } }\<close> is put between braces and given to
  \<^verbatim>\<open>JSON.parse\<close>, which turns down its unquoted property name; the call returns an error
  envelope and sends nothing.
\<close>

theorem listIssues_with_team_fails:
  "execute Linear (example_world all_keys (answers (json_ok no_issues_body)))
     listIssues_team_args
     = (Inr \<lparr>content = [text_block ''Linear error: Unexpected token in JSON''],
              details = [(''action'', JStr ''listIssues''),
                         (''error'', JStr ''Unexpected token in JSON'')]\<rparr>, [])"
  by code_simp

section \<open>C7: the defaults of textToSpeech\<close>

lemma tts_sends_one:
  "snd (and_then (elevenlabsRequest w endpoint k meth body form) (\<lambda>result.
                   if has_audio result then
                     and_then (lift (member result ''contentType'')) (\<lambda>ct.
                     and_then (lift (to_string w ct)) (\<lambda>contentType.
                     and_then (lift (member result ''audio'')) (\<lambda>audio.
                     and_then (lift (substring_0_100 audio)) (\<lambda>preview.
                       ret (audio_envelope action (g contentType preview))))))
                   else success action result))
   = [elevenlabs_request endpoint k meth body form]"
  by (subst snd_and_then_quiet)
    (auto simp: snd_elevenlabsRequest snd_simps snd_and_then_lift split: sum.splits)

text \<open>
  C7. A \<^verbatim>\<open>textToSpeech\<close> call with its text sends exactly one request, a POST to
  \<^verbatim>\<open>/text-to-speech/<voice>?output_format=<format>\<close> whose body holds the text, the model and
  the voice settings; each of the six optional parameters that is left out has its
  default there.
\<close>

theorem textToSpeech_defaults:
  assumes "credential w ''ELEVENLABS_API_KEY'' = Some k"
    and "ps ''action'' = Some (JStr ''textToSpeech'')"
    and "ps ''text'' = Some (JStr spoken)" and "spoken \<noteq> []"
  shows "\<exists>voiceId modelId outputFormat stability similarityBoost style.
           snd (execute ElevenLabs w ps) =
             [elevenlabs_request
                (''/text-to-speech/'' @ voiceId @ ''?output_format='' @ outputFormat) k ''POST''
                (Some (tts_body spoken modelId stability similarityBoost style)) False]
         \<and> (ps ''voiceId'' = None \<longrightarrow> voiceId = ''21m00Tcm4TlvDq8ikWAM'')
         \<and> (ps ''modelId'' = None \<longrightarrow> modelId = ''eleven_multilingual_v2'')
         \<and> (ps ''outputFormat'' = None \<longrightarrow> outputFormat = ''mp3_44100_128'')
         \<and> (ps ''stability'' = None \<longrightarrow> stability = JNum (1 / 2))
         \<and> (ps ''similarityBoost'' = None \<longrightarrow> similarityBoost = JNum (3 / 4))
         \<and> (ps ''style'' = None \<longrightarrow> style = JNum 0)"
proof -
  let ?voiceId = "or_else (readStringParam ps ''voiceId'') DEFAULT_VOICE_ID"
  let ?modelId = "or_else (readStringParam ps ''modelId'') DEFAULT_MODEL_ID"
  let ?outputFormat = "or_else (readStringParam ps ''outputFormat'') ''mp3_44100_128''"
  let ?stability = "nullish (param ps ''stability'') (JNum (1 / 2))"
  let ?similarityBoost = "nullish (param ps ''similarityBoost'') (JNum (3 / 4))"
  let ?style = "nullish (param ps ''style'') (JNum 0)"
  have spoken: "readStringParam_required ps ''text'' = Inr spoken"
    using assms(3,4) by (simp add: readStringParam_string required_accepted)
  have "execute ElevenLabs w ps = catch ''ElevenLabs'' ''textToSpeech'' (elevenlabs_try w ps ''textToSpeech'' k)"
    using execute_with_action[where ps = ps and a = "''textToSpeech''" and t = ElevenLabs and w = w]
      assms(1,2) by simp
  then have sent: "snd (execute ElevenLabs w ps) =
             [elevenlabs_request
                (''/text-to-speech/'' @ ?voiceId @ ''?output_format='' @ ?outputFormat) k ''POST''
                (Some (tts_body spoken ?modelId ?stability ?similarityBoost ?style)) False]"
    by (simp add: elevenlabs_try_def spoken lift_Inr and_then_ret Let_def snd_simps tts_sends_one)
  have strings: "ps ''voiceId'' = None \<longrightarrow> ?voiceId = ''21m00Tcm4TlvDq8ikWAM''"
    "ps ''modelId'' = None \<longrightarrow> ?modelId = ''eleven_multilingual_v2''"
    "ps ''outputFormat'' = None \<longrightarrow> ?outputFormat = ''mp3_44100_128''"
    by (simp_all add: readStringParam_def DEFAULT_VOICE_ID_def DEFAULT_MODEL_ID_def)
  have numbers: "ps ''stability'' = None \<longrightarrow> ?stability = JNum (1 / 2)"
    "ps ''similarityBoost'' = None \<longrightarrow> ?similarityBoost = JNum (3 / 4)"
    "ps ''style'' = None \<longrightarrow> ?style = JNum 0"
    by (simp_all add: param_def nullish_def)
  show ?thesis
    by (rule exI[of _ "?voiceId"], rule exI[of _ "?modelId"], rule exI[of _ "?outputFormat"],
        rule exI[of _ "?stability"], rule exI[of _ "?similarityBoost"], rule exI[of _ "?style"])
      (use sent strings numbers in blast)
qed

theorem textToSpeech_defaults_witness:
  "credential (example_world all_keys (answers (json_ok ''{}''))) ''ELEVENLABS_API_KEY'' = Some ''xi_key''
   \<and> textToSpeech_args ''action'' = Some (JStr ''textToSpeech'')
   \<and> textToSpeech_args ''text'' = Some (JStr ''Hello'') \<and> ''Hello'' \<noteq> []
   \<and> snd (execute ElevenLabs (example_world all_keys (answers (json_ok ''{}''))) textToSpeech_args) =
        [\<lparr>req_method = ''POST'',
          req_url = ''https://api.elevenlabs.io/v1/text-to-speech/21m00Tcm4TlvDq8ikWAM?output_format=mp3_44100_128'',
          req_headers = [(''xi-api-key'', ''xi_key''), (''Content-Type'', ''application/json'')],
          req_body = Some (JsonBody (JObj
            [(''text'', JStr ''Hello''),
             (''model_id'', JStr ''eleven_multilingual_v2''),
             (''voice_settings'', JObj
                [(''stability'', JNum (1 / 2)),
                 (''similarity_boost'', JNum (3 / 4)),
                 (''style'', JNum 0),
                 (''use_speaker_boost'', JBool True)])]))\<rparr>]"
proof -
  have cred: "credential (example_world all_keys (answers (json_ok ''{}''))) ''ELEVENLABS_API_KEY'' = Some ''xi_key''"
    by (simp add: credential_def example_world_def all_keys_def)
  have present: "textToSpeech_args ''action'' = Some (JStr ''textToSpeech'')"
    by (simp add: textToSpeech_args_def)
  have hello: "textToSpeech_args ''text'' = Some (JStr ''Hello'')"
    by (simp add: textToSpeech_args_def)
  have nonempty: "''Hello'' \<noteq> []"
    by simp
  have omitted: "textToSpeech_args ''voiceId'' = None" "textToSpeech_args ''modelId'' = None"
    "textToSpeech_args ''outputFormat'' = None" "textToSpeech_args ''stability'' = None"
    "textToSpeech_args ''similarityBoost'' = None" "textToSpeech_args ''style'' = None"
    by (simp_all add: textToSpeech_args_def)
  from textToSpeech_defaults[where ps = textToSpeech_args and spoken = "''Hello''", OF cred present hello nonempty]
    omitted cred present hello
  show ?thesis
    by (auto simp: elevenlabs_request_def tts_body_def)
qed

section \<open>C8: the two-step actions\<close>

text \<open>
  C8. In \<^verbatim>\<open>speechToSpeech\<close> of the ElevenLabs tool and \<^verbatim>\<open>transcribe\<close> of the OpenAI tool,
  when the GET of the audio URL is answered with a status that is not ok, the call
  returns the error envelope with the message \<^verbatim>\<open>Failed to fetch audio: <status>\<close>, and
  that GET is the only request sent: the upload is not attempted.
\<close>

theorem audio_fetch_failure_short_circuits:
  assumes "credential w (credential_variable t) = Some k"
    and "t = ElevenLabs \<and> a = ''speechToSpeech'' \<or> t = OpenAI \<and> a = ''transcribe''"
    and "ps ''action'' = Some (JStr a)"
    and "ps ''audioUrl'' = Some (JStr url)" and "url \<noteq> []"
    and "fetch w (get_request url) = Inr response" and "\<not> ok response"
  shows "execute t w ps =
           (Inr \<lparr>content = [text_block (provider t @ '' error: Failed to fetch audio: ''
                                         @ show_nat (resp_status response))],
                  details = [(''action'', JStr a),
                             (''error'', JStr (''Failed to fetch audio: ''
                                               @ show_nat (resp_status response)))]\<rparr>,
            [get_request url])"
proof -
  have url: "readStringParam_required ps ''audioUrl'' = Inr url"
    using assms(4,5) by (simp add: readStringParam_string required_accepted)
  from assms(2) have "a \<noteq> []" by auto
  from execute_with_action[where ps = ps and a = a and t = t and w = w, OF assms(3) this] assms(1)
  have run: "execute t w ps = catch (provider t) a (try_block t w ps a k)"
    by simp
  from assms(2) show ?thesis
  proof
    assume "t = ElevenLabs \<and> a = ''speechToSpeech''"
    with run url assms(6,7) show ?thesis
      by (simp add: elevenlabs_try_def Let_def lift_Inr and_then_ret and_then_fetch throw_pair
            catch_def)
  next
    assume "t = OpenAI \<and> a = ''transcribe''"
    with run url assms(6,7) show ?thesis
      by (simp add: openai_try_def Let_def lift_Inr and_then_ret and_then_fetch throw_pair
            catch_def)
  qed
qed

theorem audio_fetch_failure_short_circuits_witness:
  "credential (example_world all_keys (answers not_found)) (credential_variable OpenAI) = Some ''sk_key''
   \<and> transcribe_args ''action'' = Some (JStr ''transcribe'')
   \<and> transcribe_args ''audioUrl'' = Some (JStr ''https://example.com/a.mp3'')
   \<and> fetch (example_world all_keys (answers not_found)) (get_request ''https://example.com/a.mp3'')
       = Inr not_found
   \<and> ok not_found = False
   \<and> execute OpenAI (example_world all_keys (answers not_found)) transcribe_args =
           (Inr \<lparr>content = [text_block ''OpenAI error: Failed to fetch audio: 404''],
                  details = [(''action'', JStr ''transcribe''),
                             (''error'', JStr ''Failed to fetch audio: 404'')]\<rparr>,
            [get_request ''https://example.com/a.mp3''])"
proof -
  have cred: "credential (example_world all_keys (answers not_found)) (credential_variable OpenAI) = Some ''sk_key''"
    by (simp add: credential_def example_world_def all_keys_def)
  have which: "OpenAI = ElevenLabs \<and> ''transcribe'' = ''speechToSpeech'' \<or> OpenAI = OpenAI \<and> ''transcribe'' = ''transcribe''"
    by simp
  have present: "transcribe_args ''action'' = Some (JStr ''transcribe'')"
    by (simp add: transcribe_args_def)
  have url: "transcribe_args ''audioUrl'' = Some (JStr ''https://example.com/a.mp3'')"
    by (simp add: transcribe_args_def)
  have nonempty: "''https://example.com/a.mp3'' \<noteq> []"
    by simp
  have net: "fetch (example_world all_keys (answers not_found)) (get_request ''https://example.com/a.mp3'')
       = Inr not_found"
    by (simp add: example_world_def answers_def)
  have refused: "\<not> ok not_found"
    by (simp add: ok_def not_found_def)
  have status: "show_nat (resp_status not_found) = ''404''"
    by (simp add: not_found_def show_nat.simps)
  from audio_fetch_failure_short_circuits[where ps = transcribe_args, OF cred which present url nonempty net refused]
    cred present url net refused status
  show ?thesis
    by simp
qed

section \<open>C9 and C10: the filter of listIssues\<close>

lemma parse_team_filter: "JSON_parse (''{'' @ team_filter t @ ''}'') = Inl unexpected"
  by (simp add: team_filter_def JSON_parse_def step_idle_def is_digit_def is_ws_def)

lemma parse_project_filter: "JSON_parse (''{'' @ project_filter p @ ''}'') = Inl unexpected"
  by (simp add: project_filter_def JSON_parse_def step_idle_def is_digit_def is_ws_def)

lemma listIssues_filter_cases:
  "listIssues_filter x y = []
   \<or> (\<exists>t. listIssues_filter x y = team_filter t)
   \<or> (\<exists>p. listIssues_filter x y = project_filter p)"
  by (auto simp: listIssues_filter_def Let_def split: option.splits)

lemma parse_listIssues_filter:
  "listIssues_filter x y \<noteq> [] \<Longrightarrow>
   JSON_parse (''{'' @ listIssues_filter x y @ ''}'') = Inl unexpected"
  using listIssues_filter_cases[of x y] parse_team_filter parse_project_filter by auto

lemma listIssues_filter_given:
  "given x \<or> given y \<Longrightarrow> listIssues_filter x y \<noteq> []"
  by (cases x; cases y) (auto simp: listIssues_filter_def Let_def team_filter_def project_filter_def)

lemma listIssues_fails:
  assumes "given (readStringParam ps ''teamId'') \<or> given (readStringParam ps ''projectId'')"
  shows "catch ''Linear'' ''listIssues'' (linear_try w ps ''listIssues'' k) =
           (Inr \<lparr>content = [text_block (''Linear error: '' @ message unexpected)],
                  details = [(''action'', JStr ''listIssues''),
                             (''error'', JStr (message unexpected))]\<rparr>, [])"
  using listIssues_filter_given[OF assms] parse_listIssues_filter[OF listIssues_filter_given[OF assms]]
  by (simp add: linear_try_def linear_try_with_def Let_def listIssues_variables_def run_simps ret_def)



text \<open>
  C10. When the \<^verbatim>\<open>teamId\<close> or the \<^verbatim>\<open>projectId\<close> of a \<^verbatim>\<open>listIssues\<close> call holds a double
  quote, \<^verbatim>\<open>JSON.parse\<close> of the fragment between braces throws, and the call returns the
  error envelope with that error's message and sends no request.
\<close>

theorem listIssues_quote_is_an_error:
  assumes "credential w ''LINEAR_API_KEY'' = Some k"
    and "ps ''action'' = Some (JStr ''listIssues'')"
    and "(\<exists>t. ps ''teamId'' = Some (JStr t) \<and> CHR 0x22 \<in> set t)
         \<or> (\<exists>p. ps ''projectId'' = Some (JStr p) \<and> CHR 0x22 \<in> set p)"
  shows "\<exists>err. JSON_parse (''{'' @ listIssues_filter (readStringParam ps ''teamId'')
                                   (readStringParam ps ''projectId'') @ ''}'') = Inl err
         \<and> execute Linear w ps =
             (Inr \<lparr>content = [text_block (''Linear error: '' @ message err)],
                    details = [(''action'', JStr ''listIssues''), (''error'', JStr (message err))]\<rparr>,
              [])"
proof -
  from assms(3) have some: "given (readStringParam ps ''teamId'') \<or> given (readStringParam ps ''projectId'')"
    by (auto simp: readStringParam_def split: if_splits)
  from execute_with_action[where ps = ps and a = "''listIssues''" and t = Linear and w = w] assms(1,2)
  have "execute Linear w ps = catch ''Linear'' ''listIssues'' (linear_try w ps ''listIssues'' k)"
    by simp
  with listIssues_fails[OF some] parse_listIssues_filter[OF listIssues_filter_given[OF some]]
  show ?thesis by simp
qed

theorem listIssues_quote_is_an_error_witness:
  "credential (example_world all_keys (answers (json_ok no_issues_body))) ''LINEAR_API_KEY''
     = Some ''lin_api_key''
   \<and> listIssues_quote_args ''action'' = Some (JStr ''listIssues'')
   \<and> listIssues_quote_args ''teamId'' = Some (JStr ''T\"1'') \<and> CHR 0x22 \<in> set ''T\"1''
   \<and> (\<exists>err. JSON_parse (''{'' @ listIssues_filter (readStringParam listIssues_quote_args ''teamId'')
                                   (readStringParam listIssues_quote_args ''projectId'') @ ''}'')
               = Inl err
         \<and> execute Linear (example_world all_keys (answers (json_ok no_issues_body)))
              listIssues_quote_args =
             (Inr \<lparr>content = [text_block (''Linear error: '' @ message err)],
                    details = [(''action'', JStr ''listIssues''), (''error'', JStr (message err))]\<rparr>,
              []))"
proof -
  have cred: "credential (example_world all_keys (answers (json_ok no_issues_body)))
                ''LINEAR_API_KEY'' = Some ''lin_api_key''"
    by (simp add: credential_def example_world_def all_keys_def)
  have present: "listIssues_quote_args ''action'' = Some (JStr ''listIssues'')"
    by (simp add: listIssues_quote_args_def)
  have team: "listIssues_quote_args ''teamId'' = Some (JStr ''T\"1'')"
    by (simp add: listIssues_quote_args_def)
  have quote: "CHR 0x22 \<in> set ''T\"1''"
    by simp
  from team quote have which:
    "(\<exists>t. listIssues_quote_args ''teamId'' = Some (JStr t) \<and> CHR 0x22 \<in> set t)
     \<or> (\<exists>p. listIssues_quote_args ''projectId'' = Some (JStr p) \<and> CHR 0x22 \<in> set p)"
    by blast
  from listIssues_quote_is_an_error[OF cred present which] cred present team quote
  show ?thesis
    by simp
qed

end
